theory Spec2Isabelle
  imports Main "HOL-Library.Code_Target_Nat"
begin

section \<open>Python values as the scraper sees them\<close>

text \<open>
  The scraper (\<^verbatim>\<open>scrapper_san_pablo.py\<close>) works on the values that
  \<^verbatim>\<open>json.load\<close> and \<^verbatim>\<open>response.json()\<close> hand to it: \<^verbatim>\<open>None\<close>, booleans,
  unbounded integers, floats, strings, lists and dictionaries with string keys.
  A Python string is the list of its code points, each a natural number, so that every
  character of a \<^verbatim>\<open>str\<close> can be written, inside and outside ASCII; \<open>py\<close> gives the
  string of a literal of the theory. A dictionary is an association list in insertion
  order, read at the first entry of a key.
\<close>

type_synonym pystr = "nat list"

definition py :: "string \<Rightarrow> pystr" where
  "py s = map of_char s"

datatype 'f json =
    JNull
  | JBool bool
  | JInt int
  | JFloat 'f
  | JStr pystr
  | JArr "'f json list"
  | JObj "(pystr \<times> 'f json) list"

text \<open>
  What belongs to the language runtime is a parameter of the functions below, a record
  of operations. The type of floats is the type parameter \<open>'f\<close>, with the float
  operations the script uses:
  \<^verbatim>\<open>float(i)\<close> on an integer (\<open>None\<close> stands for \<^verbatim>\<open>OverflowError\<close>),
  \<^verbatim>\<open>float(s)\<close> on a string (\<open>None\<close> stands for \<^verbatim>\<open>ValueError\<close>),
  \<^verbatim>\<open>bool(x)\<close>, \<^verbatim>\<open>repr(x)\<close>, the format \<^verbatim>\<open>f"{v:.2f}"\<close> and the comparison
  \<^verbatim>\<open>total < base - 1e-9\<close>. The record also holds the three tables of the Unicode
  character database that the script reads through \<^verbatim>\<open>re\<close> and the string methods:
  which code points beyond ASCII are decimal digits (the class \<^verbatim>\<open>\d\<close>), which are
  white space (\<^verbatim>\<open>strip\<close>) and which are printable (\<^verbatim>\<open>repr\<close>).
\<close>

record 'f pyrt =
  rt_float_of_int :: "int \<Rightarrow> 'f option"
  rt_float_of_str :: "pystr \<Rightarrow> 'f option"
  rt_float_bool :: "'f \<Rightarrow> bool"
  rt_float_repr :: "'f \<Rightarrow> pystr"
  rt_float_fmt2 :: "'f \<Rightarrow> pystr"
  rt_promo_less :: "'f \<Rightarrow> 'f \<Rightarrow> bool"
  rt_unicode_digit :: "nat \<Rightarrow> bool"
  rt_unicode_space :: "nat \<Rightarrow> bool"
  rt_unicode_printable :: "nat \<Rightarrow> bool"

text \<open>
  The character classes. Inside ASCII they are fixed: the digits are \<^verbatim>\<open>0\<close> to \<^verbatim>\<open>9\<close>,
  the white space is 9 to 13 and 28 to 32, the printable characters are 32 to 126.
  From code point 128 on the tables of the runtime decide.
\<close>

definition is_digit :: "'f pyrt \<Rightarrow> nat \<Rightarrow> bool" where
  "is_digit rt c = (48 \<le> c \<and> c \<le> 57 \<or> 128 \<le> c \<and> rt_unicode_digit rt c)"

definition is_space :: "'f pyrt \<Rightarrow> nat \<Rightarrow> bool" where
  "is_space rt c = (9 \<le> c \<and> c \<le> 13 \<or> 28 \<le> c \<and> c \<le> 32 \<or> 128 \<le> c \<and> rt_unicode_space rt c)"

definition printable :: "'f pyrt \<Rightarrow> nat \<Rightarrow> bool" where
  "printable rt c = (32 \<le> c \<and> c < 127 \<or> 128 \<le> c \<and> rt_unicode_printable rt c)"

datatype exn =
    AttributeError pystr
  | TypeError pystr
  | IndexError pystr
  | KeyError pystr
  | RuntimeError pystr
  | RequestError pystr

text \<open>\<^verbatim>\<open>str(e)\<close>, as the handler of \<^verbatim>\<open>main\<close> prints it.\<close>

fun exn_str :: "exn \<Rightarrow> pystr" where
  "exn_str (AttributeError m) = m"
| "exn_str (TypeError m) = m"
| "exn_str (IndexError m) = m"
| "exn_str (KeyError m) = m"
| "exn_str (RuntimeError m) = m"
| "exn_str (RequestError m) = m"

definition ebind :: "exn + 'a \<Rightarrow> ('a \<Rightarrow> exn + 'b) \<Rightarrow> exn + 'b" where
  "ebind m f = (case m of Inl e \<Rightarrow> Inl e | Inr x \<Rightarrow> f x)"

fun py_typename :: "'f json \<Rightarrow> pystr" where
  "py_typename JNull = py ''NoneType''"
| "py_typename (JBool b) = py ''bool''"
| "py_typename (JInt i) = py ''int''"
| "py_typename (JFloat x) = py ''float''"
| "py_typename (JStr s) = py ''str''"
| "py_typename (JArr xs) = py ''list''"
| "py_typename (JObj kvs) = py ''dict''"

text \<open>The code point 39 is the single quote.\<close>

definition no_attribute :: "'f json \<Rightarrow> pystr \<Rightarrow> exn" where
  "no_attribute v a =
     AttributeError ([39] @ py_typename v @ [39] @ py '' object has no attribute ''
                     @ [39] @ a @ [39])"

text \<open>Truth value of a value, as \<^verbatim>\<open>if not x\<close> and \<^verbatim>\<open>x or y\<close> test it.\<close>

fun truthy :: "'f pyrt \<Rightarrow> 'f json \<Rightarrow> bool" where
  "truthy rt JNull = False"
| "truthy rt (JBool b) = b"
| "truthy rt (JInt i) = (i \<noteq> 0)"
| "truthy rt (JFloat x) = rt_float_bool rt x"
| "truthy rt (JStr s) = (s \<noteq> [])"
| "truthy rt (JArr xs) = (xs \<noteq> [])"
| "truthy rt (JObj kvs) = (kvs \<noteq> [])"

definition py_or :: "'f pyrt \<Rightarrow> 'f json \<Rightarrow> 'f json \<Rightarrow> 'f json" where
  "py_or rt a b = (if truthy rt a then a else b)"

text \<open>\<^verbatim>\<open>d.get(k)\<close>: only a dictionary has the method; a missing key gives \<^verbatim>\<open>None\<close>.\<close>

fun dict_get :: "'f json \<Rightarrow> pystr \<Rightarrow> exn + 'f json" where
  "dict_get (JObj kvs) k = Inr (case map_of kvs k of None \<Rightarrow> JNull | Some v \<Rightarrow> v)"
| "dict_get v k = Inl (no_attribute v (py ''get''))"

text \<open>\<^verbatim>\<open>d.get(k, [])\<close>: the default replaces a missing key only.\<close>

fun dict_get_default :: "'f json \<Rightarrow> pystr \<Rightarrow> 'f json \<Rightarrow> exn + 'f json" where
  "dict_get_default (JObj kvs) k d = Inr (case map_of kvs k of None \<Rightarrow> d | Some v \<Rightarrow> v)"
| "dict_get_default v k d = Inl (no_attribute v (py ''get''))"

text \<open>
  \<^verbatim>\<open>for v in x\<close>: a list gives its elements, a string its characters as strings of
  length one, a dictionary its keys; anything else raises \<^verbatim>\<open>TypeError\<close>.
\<close>

fun py_iter :: "'f json \<Rightarrow> exn + 'f json list" where
  "py_iter (JArr xs) = Inr xs"
| "py_iter (JStr s) = Inr (map (\<lambda>c. JStr [c]) s)"
| "py_iter (JObj kvs) = Inr (map (\<lambda>kv. JStr (fst kv)) kvs)"
| "py_iter v = Inl (TypeError ([39] @ py_typename v @ [39] @ py '' object is not iterable''))"

text \<open>\<^verbatim>\<open>x[0]\<close>.\<close>

fun py_index0 :: "'f json \<Rightarrow> exn + 'f json" where
  "py_index0 (JArr []) = Inl (IndexError (py ''list index out of range''))"
| "py_index0 (JArr (x # xs)) = Inr x"
| "py_index0 (JStr []) = Inl (IndexError (py ''string index out of range''))"
| "py_index0 (JStr (c # s)) = Inr (JStr [c])"
| "py_index0 (JObj kvs) = Inl (KeyError (py ''0''))"
| "py_index0 v = Inl (TypeError ([39] @ py_typename v @ [39] @ py '' object is not subscriptable''))"

text \<open>
  \<^verbatim>\<open>s.strip()\<close> removes the white space at both ends. Only a string has the method.
\<close>

definition strip :: "'f pyrt \<Rightarrow> pystr \<Rightarrow> pystr" where
  "strip rt s = rev (dropWhile (is_space rt) (rev (dropWhile (is_space rt) s)))"

fun py_strip :: "'f pyrt \<Rightarrow> 'f json \<Rightarrow> exn + pystr" where
  "py_strip rt (JStr s) = Inr (strip rt s)"
| "py_strip rt v = Inl (no_attribute v (py ''strip''))"

subsection \<open>Printing: \<^verbatim>\<open>str\<close> and \<^verbatim>\<open>repr\<close>\<close>

definition digit_char :: "nat \<Rightarrow> nat" where
  "digit_char n = 48 + n"

fun str_of_nat :: "nat \<Rightarrow> pystr" where
  "str_of_nat n = (if n < 10 then [digit_char n] else str_of_nat (n div 10) @ [digit_char (n mod 10)])"

definition str_of_int :: "int \<Rightarrow> pystr" where
  "str_of_int i = (if i < 0 then 45 # str_of_nat (nat (- i)) else str_of_nat (nat i))"

text \<open>A hexadecimal digit, and the \<open>k\<close> hexadecimal digits of a code point.\<close>

definition hex_char :: "nat \<Rightarrow> nat" where
  "hex_char n = (if n < 10 then 48 + n else 87 + n)"

definition hex_digits :: "nat \<Rightarrow> nat \<Rightarrow> pystr" where
  "hex_digits k c = map (\<lambda>i. hex_char ((c div 16 ^ i) mod 16)) (rev [0..<k])"

text \<open>
  \<^verbatim>\<open>repr\<close> of a string: double quotes (34) when the string holds a single quote (39)
  and no double quote, single quotes otherwise; the quote and the backslash (92) are
  escaped, tab, newline and carriage return are written \<^verbatim>\<open>\t\<close>, \<^verbatim>\<open>\n\<close>, \<^verbatim>\<open>\r\<close>, and
  every other code point that is not printable as \<^verbatim>\<open>\xNN\<close>, \<^verbatim>\<open>\uNNNN\<close> or
  \<^verbatim>\<open>\UNNNNNNNN\<close>, the shortest that holds it.
\<close>

definition repr_char :: "'f pyrt \<Rightarrow> nat \<Rightarrow> nat \<Rightarrow> pystr" where
  "repr_char rt q c =
     (if c = q \<or> c = 92 then [92, c]
      else if c = 9 then [92, 116]
      else if c = 10 then [92, 110]
      else if c = 13 then [92, 114]
      else if printable rt c then [c]
      else if c < 256 then [92, 120] @ hex_digits 2 c
      else if c < 65536 then [92, 117] @ hex_digits 4 c
      else [92, 85] @ hex_digits 8 c)"

definition repr_str :: "'f pyrt \<Rightarrow> pystr \<Rightarrow> pystr" where
  "repr_str rt s =
     (let q = (if 39 \<in> set s \<and> 34 \<notin> set s then 34 else 39)
      in [q] @ concat (map (repr_char rt q) s) @ [q])"

fun join_comma :: "pystr list \<Rightarrow> pystr" where
  "join_comma [] = []"
| "join_comma [x] = x"
| "join_comma (x # y # ys) = x @ py '', '' @ join_comma (y # ys)"

fun py_repr :: "'f pyrt \<Rightarrow> 'f json \<Rightarrow> pystr" where
  "py_repr rt JNull = py ''None''"
| "py_repr rt (JBool b) = (if b then py ''True'' else py ''False'')"
| "py_repr rt (JInt i) = str_of_int i"
| "py_repr rt (JFloat x) = rt_float_repr rt x"
| "py_repr rt (JStr s) = repr_str rt s"
| "py_repr rt (JArr xs) = py ''['' @ join_comma (map (py_repr rt) xs) @ py '']''"
| "py_repr rt (JObj kvs) =
     py ''{'' @ join_comma (map (\<lambda>kv. repr_str rt (fst kv) @ py '': '' @ py_repr rt (snd kv)) kvs)
     @ py ''}''"

text \<open>\<^verbatim>\<open>str(x)\<close>, which is also what an f-string field \<^verbatim>\<open>{x}\<close> prints.\<close>

definition py_str :: "'f pyrt \<Rightarrow> 'f json \<Rightarrow> pystr" where
  "py_str rt v = (case v of JStr s \<Rightarrow> s | _ \<Rightarrow> py_repr rt v)"

section \<open>Utilities of the script\<close>

text \<open>
  \<^verbatim>\<open>clean_digits(s) = re.sub(r"\D", "", str(s or ""))\<close>: every character outside the
  class \<^verbatim>\<open>\d\<close> is removed.
\<close>

definition clean_digits :: "'f pyrt \<Rightarrow> 'f json \<Rightarrow> pystr" where
  "clean_digits rt s = filter (is_digit rt) (py_str rt (py_or rt s (JStr [])))"

text \<open>
  \<^verbatim>\<open>re.search(r"([\d.,]+)", s)\<close>: the leftmost longest run of digits, dots (46) and
  commas (44); \<open>None\<close> when the string has none.
\<close>

definition num_class :: "'f pyrt \<Rightarrow> nat \<Rightarrow> bool" where
  "num_class rt c = (is_digit rt c \<or> c = 46 \<or> c = 44)"

definition re_search_run :: "'f pyrt \<Rightarrow> pystr \<Rightarrow> pystr option" where
  "re_search_run rt s =
     (let r = takeWhile (num_class rt) (dropWhile (\<lambda>c. \<not> num_class rt c) s)
      in if r = [] then None else Some r)"

text \<open>
  \<^verbatim>\<open>num(x)\<close>. Every exception raised inside its \<^verbatim>\<open>try\<close> gives \<^verbatim>\<open>None\<close>: the
  \<^verbatim>\<open>OverflowError\<close> of \<^verbatim>\<open>float\<close> on an integer and the \<^verbatim>\<open>ValueError\<close> of
  \<^verbatim>\<open>float\<close> on a string.
\<close>

definition num :: "'f pyrt \<Rightarrow> 'f json \<Rightarrow> 'f option" where
  "num rt x =
     (case x of
        JNull \<Rightarrow> None
      | JBool b \<Rightarrow> None
      | JInt i \<Rightarrow> rt_float_of_int rt i
      | JFloat v \<Rightarrow> Some v
      | _ \<Rightarrow> (case re_search_run rt (py_str rt x) of
                None \<Rightarrow> None
              | Some g \<Rightarrow> rt_float_of_str rt (filter (\<lambda>c. c \<noteq> 44) g)))"

text \<open>\<^verbatim>\<open>money(v)\<close>, called on the result of \<^verbatim>\<open>num\<close> (a float or \<^verbatim>\<open>None\<close>).\<close>

definition money :: "'f pyrt \<Rightarrow> 'f option \<Rightarrow> pystr" where
  "money rt v = (case v of None \<Rightarrow> [] | Some x \<Rightarrow> rt_float_fmt2 rt x)"

section \<open>Identifier match\<close>

text \<open>
  A loop whose body either returns \<^verbatim>\<open>True\<close> from the enclosing function, goes on to
  the next element, or raises.
\<close>

fun loop_until :: "('a \<Rightarrow> exn + bool) \<Rightarrow> 'a list \<Rightarrow> exn + bool" where
  "loop_until f [] = Inr False"
| "loop_until f (x # xs) =
     (case f x of Inl e \<Rightarrow> Inl e | Inr b \<Rightarrow> if b then Inr True else loop_until f xs)"

text \<open>The three loops of \<^verbatim>\<open>upc_matches\<close>, in the order of the source.\<close>

definition match_direct :: "'f pyrt \<Rightarrow> 'f json \<Rightarrow> pystr \<Rightarrow> exn + bool" where
  "match_direct rt detail_json t =
     loop_until (\<lambda>k. ebind (dict_get detail_json k) (\<lambda>v. Inr (clean_digits rt v = t)))
       [py ''gtin'', py ''ean'', py ''upc'', py ''sku'', py ''visualCode'']"

text \<open>The \<^verbatim>\<open>try\<close> around the inner loop swallows the \<^verbatim>\<open>TypeError\<close> of a value that cannot be iterated.\<close>

definition match_lists :: "'f pyrt \<Rightarrow> 'f json \<Rightarrow> pystr \<Rightarrow> exn + bool" where
  "match_lists rt detail_json t =
     loop_until (\<lambda>k. ebind (dict_get detail_json k) (\<lambda>got.
         case ebind (py_iter (py_or rt got (JArr [])))
                (loop_until (\<lambda>v. Inr (clean_digits rt v = t))) of
           Inl e \<Rightarrow> Inr False
         | Inr b \<Rightarrow> Inr b))
       [py ''eans'', py ''gtins'', py ''upcs'']"

definition match_feature :: "'f pyrt \<Rightarrow> pystr \<Rightarrow> 'f json \<Rightarrow> exn + bool" where
  "match_feature rt t feat =
     ebind (dict_get_default feat (py ''featureValues'') (JArr [])) (\<lambda>fvs.
     ebind (py_iter (py_or rt fvs (JArr []))) (\<lambda>vals.
     ebind (loop_until (\<lambda>val. ebind (dict_get val (py ''value'')) (\<lambda>v. Inr (clean_digits rt v = t))) vals)
       (\<lambda>found.
          if found then Inr True
          else ebind (dict_get feat (py ''value'')) (\<lambda>v. Inr (clean_digits rt v = t)))))"

definition match_classifications :: "'f pyrt \<Rightarrow> 'f json \<Rightarrow> pystr \<Rightarrow> exn + bool" where
  "match_classifications rt detail_json t =
     ebind (dict_get_default detail_json (py ''classifications'') (JArr [])) (\<lambda>cls.
     ebind (py_iter (py_or rt cls (JArr [])))
       (loop_until (\<lambda>cl.
          ebind (dict_get_default cl (py ''features'') (JArr [])) (\<lambda>fs.
          ebind (py_iter (py_or rt fs (JArr [])))
            (loop_until (match_feature rt t))))))"

definition upc_matches :: "'f pyrt \<Rightarrow> 'f json \<Rightarrow> 'f json \<Rightarrow> exn + bool" where
  "upc_matches rt detail_json upc =
     (let t = clean_digits rt upc in
      if t = [] then Inr False
      else ebind (match_direct rt detail_json t) (\<lambda>b1.
           if b1 then Inr True
           else ebind (match_lists rt detail_json t) (\<lambda>b2.
                if b2 then Inr True
                else match_classifications rt detail_json t)))"

section \<open>The platform and the state of a run\<close>

text \<open>
  The calls the script makes through the browsing context, one constructor per call
  site: product search with its query, product detail with the product code, the three
  requests of \<^verbatim>\<open>Cart.create\<close>, the cart entry with the cart identifier and the product
  code (the quantity is always 1), the cart read, and the removal of entry 0.
\<close>

datatype 'f request =
    SearchReq "'f json"
  | DetailReq "'f json"
  | CartCreateReq
  | CartListReq
  | CartCurrentReq
  | AddEntryReq "'f json" "'f json"
  | GetPricesReq "'f json"
  | RemoveReq "'f json"

text \<open>
  What a call gives back: the request raises (with the message of the exception), or
  there is a response, with its \<^verbatim>\<open>ok\<close> flag and the value of \<^verbatim>\<open>r.json()\<close>
  (\<open>None\<close> when the body does not parse).
\<close>

datatype 'f reply =
    Raises pystr
  | Response bool "'f json option"

text \<open>
  The platform is any function from a state of the world and a request to a reply and
  the next state of the world; \<open>now_str\<close> reads the clock.
\<close>

record ('w, 'f) env =
  send :: "'w \<Rightarrow> 'f request \<Rightarrow> 'f reply \<times> 'w"
  now_str :: "'w \<Rightarrow> pystr"

text \<open>One row of the output; the fields are the five columns of the CSV file.\<close>

record 'f row =
  UPC :: "'f json"
  precio_sin_promocion :: pystr
  precio_con_promocion :: pystr
  nombre_del_producto :: pystr
  fecha_scrapping :: pystr

text \<open>
  The state of a run: the world, the calls made so far with their replies (in order),
  and the list \<^verbatim>\<open>rows\<close>.
\<close>

record ('w, 'f) state =
  world :: 'w
  calls :: "('f request \<times> 'f reply) list"
  rows :: "'f row list"

definition request :: "('w, 'f) env \<Rightarrow> 'f request \<Rightarrow> ('w, 'f) state \<Rightarrow> 'f reply \<times> ('w, 'f) state" where
  "request env rq st =
     (case send env (world st) rq of
        (rp, w) \<Rightarrow> (rp, st\<lparr>world := w, calls := calls st @ [(rq, rp)]\<rparr>))"

text \<open>\<^verbatim>\<open>rows.append({...})\<close>\<close>

definition append_row ::
  "('w, 'f) env \<Rightarrow> 'f json \<Rightarrow> pystr \<Rightarrow> pystr \<Rightarrow> pystr \<Rightarrow> ('w, 'f) state \<Rightarrow> ('w, 'f) state" where
  "append_row env upc sin con name st =
     st\<lparr>rows := rows st @
        [\<lparr>UPC = upc, precio_sin_promocion = sin, precio_con_promocion = con,
          nombre_del_producto = name, fecha_scrapping = now_str env (world st)\<rparr>]\<rparr>"

section \<open>The product API (class \<^verbatim>\<open>OCC\<close>)\<close>

text \<open>
  Each method sends its request and then works on the reply alone; the second part is
  a function of the reply. For \<^verbatim>\<open>OCC.search\<close>: the exception of the request goes
  to the caller; a response that is not \<^verbatim>\<open>ok\<close>, or whose body does not parse or is
  not a dictionary, gives \<^verbatim>\<open>[]\<close>; otherwise \<^verbatim>\<open>r.json().get("products") or []\<close>.
\<close>

definition search_result :: "'f pyrt \<Rightarrow> 'f reply \<Rightarrow> exn + 'f json" where
  "search_result rt rp =
     (case rp of
        Raises m \<Rightarrow> Inl (RequestError m)
      | Response ok body \<Rightarrow>
          Inr (if \<not> ok then JArr []
               else (case body of
                       None \<Rightarrow> JArr []
                     | Some j \<Rightarrow> (case dict_get j (py ''products'') of
                                    Inl e \<Rightarrow> JArr []
                                  | Inr p \<Rightarrow> py_or rt p (JArr [])))))"

definition search ::
  "'f pyrt \<Rightarrow> ('w, 'f) env \<Rightarrow> 'f json \<Rightarrow> ('w, 'f) state \<Rightarrow> (exn + 'f json) \<times> ('w, 'f) state" where
  "search rt env q st =
     (case request env (SearchReq q) st of (rp, st1) \<Rightarrow> (search_result rt rp, st1))"

definition detail_result :: "'f reply \<Rightarrow> exn + 'f json" where
  "detail_result rp =
     (case rp of
        Raises m \<Rightarrow> Inl (RequestError m)
      | Response ok body \<Rightarrow>
          Inr (if \<not> ok then JObj []
               else (case body of None \<Rightarrow> JObj [] | Some j \<Rightarrow> j)))"

definition detail ::
  "('w, 'f) env \<Rightarrow> 'f json \<Rightarrow> ('w, 'f) state \<Rightarrow> (exn + 'f json) \<times> ('w, 'f) state" where
  "detail env code st =
     (case request env (DetailReq code) st of (rp, st1) \<Rightarrow> (detail_result rp, st1))"

section \<open>The cart (class \<^verbatim>\<open>Cart\<close>)\<close>

text \<open>The second and third request of \<^verbatim>\<open>Cart.create\<close>, each made while \<^verbatim>\<open>guid\<close> is still empty.\<close>

definition create_from_list ::
  "'f pyrt \<Rightarrow> ('w, 'f) env \<Rightarrow> 'f json \<Rightarrow> ('w, 'f) state \<Rightarrow> (exn + 'f json) \<times> ('w, 'f) state" where
  "create_from_list rt env guid st =
     (case request env CartListReq st of
        (Raises m, st1) \<Rightarrow> (Inl (RequestError m), st1)
      | (Response ok body, st1) \<Rightarrow>
          (Inr (if \<not> ok then guid
                else (case body of
                        Some (JArr (a # as)) \<Rightarrow>
                          (case ebind (dict_get a (py ''guid'')) (\<lambda>g.
                                  if truthy rt g then Inr g else dict_get a (py ''code'')) of
                             Inl e \<Rightarrow> guid
                           | Inr g \<Rightarrow> g)
                      | _ \<Rightarrow> guid)),
           st1))"

definition create_from_current ::
  "'f pyrt \<Rightarrow> ('w, 'f) env \<Rightarrow> 'f json \<Rightarrow> ('w, 'f) state \<Rightarrow> (exn + 'f json) \<times> ('w, 'f) state" where
  "create_from_current rt env guid st =
     (case request env CartCurrentReq st of
        (Raises m, st1) \<Rightarrow> (Inl (RequestError m), st1)
      | (Response ok body, st1) \<Rightarrow>
          (Inr (if \<not> ok then guid
                else (case body of
                        None \<Rightarrow> guid
                      | Some cur \<Rightarrow>
                          (case ebind (dict_get cur (py ''guid'')) (\<lambda>g.
                                  if truthy rt g then Inr g else dict_get cur (py ''code'')) of
                             Inl e \<Rightarrow> guid
                           | Inr g \<Rightarrow> g))),
           st1))"

definition create ::
  "'f pyrt \<Rightarrow> ('w, 'f) env \<Rightarrow> ('w, 'f) state \<Rightarrow> (exn + 'f json) \<times> ('w, 'f) state" where
  "create rt env st =
     (case request env CartCreateReq st of
        (Raises m, st1) \<Rightarrow> (Inl (RequestError m), st1)
      | (Response ok body, st1) \<Rightarrow>
          if \<not> ok then (Inr JNull, st1)
          else
     (case body of
        None \<Rightarrow> (Inr JNull, st1)
      | Some j \<Rightarrow>
     (case ebind (dict_get j (py ''guid'')) (\<lambda>g. ebind (dict_get j (py ''code'')) (\<lambda>c. Inr (g, c))) of
        Inl e \<Rightarrow> (Inr JNull, st1)
      | Inr (guid, code) \<Rightarrow>
     (case (if \<not> truthy rt guid then create_from_list rt env guid st1 else (Inr guid, st1)) of
        (Inl e, st2) \<Rightarrow> (Inl e, st2)
      | (Inr guid2, st2) \<Rightarrow>
     (case (if \<not> truthy rt guid2 then create_from_current rt env guid2 st2
            else (Inr guid2, st2)) of
        (Inl e, st3) \<Rightarrow> (Inl e, st3)
      | (Inr guid3, st3) \<Rightarrow> (Inr (py_or rt guid3 (py_or rt code JNull)), st3))))))"

definition add_entry_result :: "'f reply \<Rightarrow> exn + bool" where
  "add_entry_result rp =
     (case rp of Raises m \<Rightarrow> Inl (RequestError m) | Response ok body \<Rightarrow> Inr ok)"

definition add_entry ::
  "('w, 'f) env \<Rightarrow> 'f json \<Rightarrow> 'f json \<Rightarrow> ('w, 'f) state \<Rightarrow> (exn + bool) \<times> ('w, 'f) state" where
  "add_entry env cart_id code st =
     (case request env (AddEntryReq cart_id code) st of (rp, st1) \<Rightarrow> (add_entry_result rp, st1))"

text \<open>
  The body of the \<^verbatim>\<open>try\<close> of \<^verbatim>\<open>Cart.get_prices\<close> on the parsed response: \<open>Inr None\<close>
  is its \<^verbatim>\<open>return None\<close>, \<open>Inl\<close> an exception (which the caller turns into \<^verbatim>\<open>None\<close>).
\<close>

definition read_entry ::
  "'f pyrt \<Rightarrow> 'f json \<Rightarrow> exn + ('f option \<times> 'f option \<times> pystr) option" where
  "read_entry rt j =
     ebind (dict_get j (py ''entries'')) (\<lambda>es.
       let ents = py_or rt es (JArr []) in
       if \<not> truthy rt ents then Inr None
       else ebind (py_index0 ents) (\<lambda>e.
            ebind (dict_get e (py ''basePrice'')) (\<lambda>bp.
            ebind (dict_get (py_or rt bp (JObj [])) (py ''value'')) (\<lambda>bv.
            ebind (dict_get e (py ''totalPrice'')) (\<lambda>tp.
            ebind (dict_get (py_or rt tp (JObj [])) (py ''value'')) (\<lambda>tv.
            ebind (dict_get e (py ''product'')) (\<lambda>pr.
            ebind (dict_get (py_or rt pr (JObj [])) (py ''name'')) (\<lambda>nm.
            ebind (py_strip rt (py_or rt nm (JStr []))) (\<lambda>name.
              Inr (Some (num rt bv, num rt tv, name)))))))))))"

definition get_prices_result ::
  "'f pyrt \<Rightarrow> 'f reply \<Rightarrow> exn + ('f option \<times> 'f option \<times> pystr) option" where
  "get_prices_result rt rp =
     (case rp of
        Raises m \<Rightarrow> Inl (RequestError m)
      | Response ok body \<Rightarrow>
          Inr (if \<not> ok then None
               else (case body of
                       None \<Rightarrow> None
                     | Some j \<Rightarrow> (case read_entry rt j of Inl e \<Rightarrow> None | Inr got \<Rightarrow> got))))"

definition get_prices ::
  "'f pyrt \<Rightarrow> ('w, 'f) env \<Rightarrow> 'f json \<Rightarrow> ('w, 'f) state \<Rightarrow>
     (exn + ('f option \<times> 'f option \<times> pystr) option) \<times> ('w, 'f) state" where
  "get_prices rt env cart_id st =
     (case request env (GetPricesReq cart_id) st of
        (rp, st1) \<Rightarrow> (get_prices_result rt rp, st1))"

text \<open>\<^verbatim>\<open>Cart.remove\<close> sends the request and ignores the response and any exception.\<close>

definition remove :: "('w, 'f) env \<Rightarrow> 'f json \<Rightarrow> ('w, 'f) state \<Rightarrow> ('w, 'f) state" where
  "remove env cart_id st = snd (request env (RemoveReq cart_id) st)"

section \<open>The scraping loop of \<^verbatim>\<open>main\<close>\<close>

text \<open>
  \<^verbatim>\<open>occ.search(upc) or occ.search(f":relevance:freeText:{upc}")\<close>: the second search
  is made only when the first gives an empty result.
\<close>

definition search_or_fallback ::
  "'f pyrt \<Rightarrow> ('w, 'f) env \<Rightarrow> 'f json \<Rightarrow> ('w, 'f) state \<Rightarrow> (exn + 'f json) \<times> ('w, 'f) state" where
  "search_or_fallback rt env upc st =
     (case search rt env upc st of
        (Inl e, st1) \<Rightarrow> (Inl e, st1)
      | (Inr products, st1) \<Rightarrow>
          if truthy rt products then (Inr products, st1)
          else search rt env (JStr (py '':relevance:freeText:'' @ py_str rt upc)) st1)"

text \<open>
  The loop over the candidates. It gives the pair \<^verbatim>\<open>(picked, detail)\<close>, which is
  \<^verbatim>\<open>(None, {})\<close> when the loop ends without a match.
\<close>

fun pick_loop ::
  "'f pyrt \<Rightarrow> ('w, 'f) env \<Rightarrow> 'f json \<Rightarrow> 'f json list \<Rightarrow> ('w, 'f) state \<Rightarrow>
     (exn + 'f json \<times> 'f json) \<times> ('w, 'f) state" where
  "pick_loop rt env upc [] st = (Inr (JNull, JObj []), st)"
| "pick_loop rt env upc (pdt # pdts) st =
     (case dict_get pdt (py ''code'') of
        Inl e \<Rightarrow> (Inl e, st)
      | Inr code \<Rightarrow>
          if \<not> truthy rt code then pick_loop rt env upc pdts st
          else (case detail env code st of
                  (Inl e, st1) \<Rightarrow> (Inl e, st1)
                | (Inr dj, st1) \<Rightarrow>
                    if \<not> truthy rt dj then pick_loop rt env upc pdts st1
                    else (case upc_matches rt dj upc of
                            Inl e \<Rightarrow> (Inl e, st1)
                          | Inr b \<Rightarrow>
                              if b then (Inr (pdt, dj), st1)
                              else pick_loop rt env upc pdts st1)))"

text \<open>\<^verbatim>\<open>(detail.get("name") or picked.get("name") or "").strip()\<close>\<close>

definition product_name :: "'f pyrt \<Rightarrow> 'f json \<Rightarrow> 'f json \<Rightarrow> exn + pystr" where
  "product_name rt picked dj =
     ebind (dict_get dj (py ''name'')) (\<lambda>n1.
       if truthy rt n1 then py_strip rt n1
       else ebind (dict_get picked (py ''name'')) (\<lambda>n2. py_strip rt (py_or rt n2 (JStr []))))"

text \<open>
  \<^verbatim>\<open>total if (total is not None and base is not None and total < base - 1e-9) else None\<close>
\<close>

definition promo_of :: "'f pyrt \<Rightarrow> 'f option \<Rightarrow> 'f option \<Rightarrow> 'f option" where
  "promo_of rt base total_v =
     (case total_v of
        None \<Rightarrow> None
      | Some t \<Rightarrow> (case base of
                    None \<Rightarrow> None
                  | Some b \<Rightarrow> if rt_promo_less rt t b then Some t else None))"

text \<open>
  The part of the \<^verbatim>\<open>try\<close> block after a candidate has been picked: cart add, price
  read with its retry, the row, and the removal of the cart entry. \<^verbatim>\<open>sleep\<close> has
  no effect on the state.
\<close>

definition price_block ::
  "'f pyrt \<Rightarrow> ('w, 'f) env \<Rightarrow> 'f json \<Rightarrow> 'f json \<Rightarrow> 'f json \<Rightarrow> 'f json \<Rightarrow> ('w, 'f) state \<Rightarrow>
     (exn + unit) \<times> ('w, 'f) state" where
  "price_block rt env cart_id upc picked dj st =
     (case dict_get picked (py ''code'') of
        Inl e \<Rightarrow> (Inl e, st)
      | Inr code \<Rightarrow>
     (case product_name rt picked dj of
        Inl e \<Rightarrow> (Inl e, st)
      | Inr name \<Rightarrow>
     (case add_entry env cart_id code st of
        (Inl e, st1) \<Rightarrow> (Inl e, st1)
      | (Inr ok, st1) \<Rightarrow>
          if \<not> ok then (Inr (), append_row env upc (py ''-'') (py ''-'') name st1)
          else
     (case get_prices rt env cart_id st1 of
        (Inl e, st2) \<Rightarrow> (Inl e, st2)
      | (Inr got1, st2) \<Rightarrow>
     (case (if got1 = None then get_prices rt env cart_id st2 else (Inr got1, st2)) of
        (Inl e, st3) \<Rightarrow> (Inl e, st3)
      | (Inr got, st3) \<Rightarrow>
          (case got of
             None \<Rightarrow> (Inr (), remove env cart_id (append_row env upc (py ''-'') (py ''-'') name st3))
           | Some (base, total_v, name2) \<Rightarrow>
               (Inr (),
                remove env cart_id
                  (append_row env upc (money rt base) (money rt (promo_of rt base total_v))
                     (if name2 \<noteq> [] then name2 else name) st3))))))))"

text \<open>The body of the \<^verbatim>\<open>try\<close> for one identifier.\<close>

definition process_upc_try ::
  "'f pyrt \<Rightarrow> ('w, 'f) env \<Rightarrow> 'f json \<Rightarrow> 'f json \<Rightarrow> ('w, 'f) state \<Rightarrow>
     (exn + unit) \<times> ('w, 'f) state" where
  "process_upc_try rt env cart_id upc st =
     (case search_or_fallback rt env upc st of
        (Inl e, st1) \<Rightarrow> (Inl e, st1)
      | (Inr products, st1) \<Rightarrow>
          if \<not> truthy rt products
          then (Inr (), append_row env upc (py ''-'') (py ''-'') (py ''No encontrado'') st1)
          else
     (case py_iter products of
        Inl e \<Rightarrow> (Inl e, st1)
      | Inr pdts \<Rightarrow>
     (case pick_loop rt env upc pdts st1 of
        (Inl e, st2) \<Rightarrow> (Inl e, st2)
      | (Inr (picked, dj), st2) \<Rightarrow>
          if \<not> truthy rt picked
          then (Inr (), append_row env upc (py ''-'') (py ''-'') (py ''No encontrado'') st2)
          else price_block rt env cart_id upc picked dj st2)))"

text \<open>One iteration of the loop: the \<^verbatim>\<open>try\<close> and its \<^verbatim>\<open>except Exception\<close>.\<close>

definition process_upc ::
  "'f pyrt \<Rightarrow> ('w, 'f) env \<Rightarrow> 'f json \<Rightarrow> 'f json \<Rightarrow> ('w, 'f) state \<Rightarrow> ('w, 'f) state" where
  "process_upc rt env cart_id upc st =
     (case process_upc_try rt env cart_id upc st of
        (Inl e, st1) \<Rightarrow> append_row env upc (py ''-'') (py ''-'') (py ''Error general: '' @ exn_str e) st1
      | (Inr u, st1) \<Rightarrow> st1)"

fun scrape_loop ::
  "'f pyrt \<Rightarrow> ('w, 'f) env \<Rightarrow> 'f json \<Rightarrow> 'f json list \<Rightarrow> ('w, 'f) state \<Rightarrow> ('w, 'f) state" where
  "scrape_loop rt env cart_id [] st = st"
| "scrape_loop rt env cart_id (upc # upcs) st =
     scrape_loop rt env cart_id upcs (process_upc rt env cart_id upc st)"

text \<open>
  \<^verbatim>\<open>main\<close>, from the creation of the cart to the end of the loop, on the list of
  identifiers read from the input file and a browsing context whose platform is in
  the state \<open>w\<close>. The result is the list \<^verbatim>\<open>rows\<close> that \<^verbatim>\<open>write_rows\<close> receives, or the
  exception that ends the run before the loop. The installation of the browser, the
  reading of the input file and the writing of the output file are outside. In the
  message of the \<^verbatim>\<open>RuntimeError\<close> the code point 243 is the letter o with an acute
  accent.
\<close>

definition main ::
  "'f pyrt \<Rightarrow> ('w, 'f) env \<Rightarrow> 'f json list \<Rightarrow> 'w \<Rightarrow> (exn + 'f row list) \<times> ('w, 'f) state" where
  "main rt env upcs w =
     (case create rt env \<lparr>world = w, calls = [], rows = []\<rparr> of
        (Inl e, st1) \<Rightarrow> (Inl e, st1)
      | (Inr cart_id, st1) \<Rightarrow>
          if \<not> truthy rt cart_id
          then (Inl (RuntimeError (py ''No se pudo crear carrito an'' @ [243] @ py ''nimo'')), st1)
          else (let st2 = scrape_loop rt env cart_id upcs st1 in (Inr (rows st2), st2)))"

section \<open>A runtime and a platform for concrete runs\<close>

text \<open>
  The theorems below hold for every runtime and every platform. The concrete runs use
  floats written in decimal, \<open>Dec m e\<close> standing for \<open>m / 10 ^ e\<close>: the prices of the
  examples are such numbers with few digits, on which Python's binary floats parse,
  compare and print to two decimals in the same way; on other numbers a binary float
  rounds where the decimal does not. As in Python, \<^verbatim>\<open>float\<close> of an integer raises
  \<^verbatim>\<open>OverflowError\<close> from \<open>2 ^ 1024 - 2 ^ 970\<close> on, the first integer that rounds to
  \<open>2 ^ 1024\<close>.
\<close>

datatype dec = Dec int nat

definition dec_of_int :: "int \<Rightarrow> dec option" where
  "dec_of_int i = (if 2 ^ 1024 - 2 ^ 970 \<le> \<bar>i\<bar> then None else Some (Dec i 0))"

text \<open>
  The character tables are those of CPython 3.11, which follows Unicode 14.0. Its
  decimal digits (the category \<^verbatim>\<open>Nd\<close>, which is the class \<^verbatim>\<open>\d\<close>) come in 66 runs of
  ten consecutive code points, the digits zero to nine of one script; \<open>nd_starts\<close> lists
  the zero of every run, the ASCII digits first. The value of a digit is its distance
  to the zero of its run.
\<close>

definition nd_starts :: "nat list" where
  "nd_starts =
      [48, 1632, 1776, 1984, 2406, 2534, 2662, 2790, 2918, 3046, 3174, 3302, 3430, 3558,
       3664, 3792, 3872, 4160, 4240, 6112, 6160, 6470, 6608, 6784, 6800, 6992, 7088, 7232,
       7248, 42528, 43216, 43264, 43472, 43504, 43600, 44016, 65296, 66720, 68912, 69734,
       69872, 69942, 70096, 70384, 70736, 70864, 71248, 71360, 71472, 71904, 72016, 72784,
       73040, 73120, 92768, 92864, 93008, 120782, 120792, 120802, 120812, 120822, 123200,
       123632, 125264, 130032]"

definition nd_block :: "nat \<Rightarrow> nat option" where
  "nd_block c = find (\<lambda>s. s \<le> c \<and> c < s + 10) nd_starts"

definition dec_digit :: "nat \<Rightarrow> bool" where
  "dec_digit c = (nd_block c \<noteq> None)"

definition digit_val :: "nat \<Rightarrow> nat" where
  "digit_val c = (case nd_block c of None \<Rightarrow> 0 | Some s \<Rightarrow> c - s)"

text \<open>The white space beyond ASCII, as \<^verbatim>\<open>str.strip\<close> sees it.\<close>

definition dec_space :: "nat \<Rightarrow> bool" where
  "dec_space c =
     (c \<in> set [133, 160, 5760, 8232, 8233, 8239, 8287, 12288] \<or> 8192 \<le> c \<and> c \<le> 8202)"

text \<open>
  The printable code points beyond ASCII (\<^verbatim>\<open>str.isprintable\<close>, which \<^verbatim>\<open>repr\<close> follows),
  as the list of their ranges, both ends included.
\<close>

definition printable_ranges :: "(nat \<times> nat) list" where
  "printable_ranges =
      [(161, 172), (174, 887), (890, 895), (900, 906), (908, 908), (910, 929), (931, 1327),
       (1329, 1366), (1369, 1418), (1421, 1423), (1425, 1479), (1488, 1514), (1519, 1524),
       (1542, 1563), (1565, 1756), (1758, 1805), (1808, 1866), (1869, 1969), (1984, 2042),
       (2045, 2093), (2096, 2110), (2112, 2139), (2142, 2142), (2144, 2154), (2160, 2190),
       (2200, 2273), (2275, 2435), (2437, 2444), (2447, 2448), (2451, 2472), (2474, 2480),
       (2482, 2482), (2486, 2489), (2492, 2500), (2503, 2504), (2507, 2510), (2519, 2519),
       (2524, 2525), (2527, 2531), (2534, 2558), (2561, 2563), (2565, 2570), (2575, 2576),
       (2579, 2600), (2602, 2608), (2610, 2611), (2613, 2614), (2616, 2617), (2620, 2620),
       (2622, 2626), (2631, 2632), (2635, 2637), (2641, 2641), (2649, 2652), (2654, 2654),
       (2662, 2678), (2689, 2691), (2693, 2701), (2703, 2705), (2707, 2728), (2730, 2736),
       (2738, 2739), (2741, 2745), (2748, 2757), (2759, 2761), (2763, 2765), (2768, 2768),
       (2784, 2787), (2790, 2801), (2809, 2815), (2817, 2819), (2821, 2828), (2831, 2832),
       (2835, 2856), (2858, 2864), (2866, 2867), (2869, 2873), (2876, 2884), (2887, 2888),
       (2891, 2893), (2901, 2903), (2908, 2909), (2911, 2915), (2918, 2935), (2946, 2947),
       (2949, 2954), (2958, 2960), (2962, 2965), (2969, 2970), (2972, 2972), (2974, 2975),
       (2979, 2980), (2984, 2986), (2990, 3001), (3006, 3010), (3014, 3016), (3018, 3021),
       (3024, 3024), (3031, 3031), (3046, 3066), (3072, 3084), (3086, 3088), (3090, 3112),
       (3114, 3129), (3132, 3140), (3142, 3144), (3146, 3149), (3157, 3158), (3160, 3162),
       (3165, 3165), (3168, 3171), (3174, 3183), (3191, 3212), (3214, 3216), (3218, 3240),
       (3242, 3251), (3253, 3257), (3260, 3268), (3270, 3272), (3274, 3277), (3285, 3286),
       (3293, 3294), (3296, 3299), (3302, 3311), (3313, 3314), (3328, 3340), (3342, 3344),
       (3346, 3396), (3398, 3400), (3402, 3407), (3412, 3427), (3430, 3455), (3457, 3459),
       (3461, 3478), (3482, 3505), (3507, 3515), (3517, 3517), (3520, 3526), (3530, 3530),
       (3535, 3540), (3542, 3542), (3544, 3551), (3558, 3567), (3570, 3572), (3585, 3642),
       (3647, 3675), (3713, 3714), (3716, 3716), (3718, 3722), (3724, 3747), (3749, 3749),
       (3751, 3773), (3776, 3780), (3782, 3782), (3784, 3789), (3792, 3801), (3804, 3807),
       (3840, 3911), (3913, 3948), (3953, 3991), (3993, 4028), (4030, 4044), (4046, 4058),
       (4096, 4293), (4295, 4295), (4301, 4301), (4304, 4680), (4682, 4685), (4688, 4694),
       (4696, 4696), (4698, 4701), (4704, 4744), (4746, 4749), (4752, 4784), (4786, 4789),
       (4792, 4798), (4800, 4800), (4802, 4805), (4808, 4822), (4824, 4880), (4882, 4885),
       (4888, 4954), (4957, 4988), (4992, 5017), (5024, 5109), (5112, 5117), (5120, 5759),
       (5761, 5788), (5792, 5880), (5888, 5909), (5919, 5942), (5952, 5971), (5984, 5996),
       (5998, 6000), (6002, 6003), (6016, 6109), (6112, 6121), (6128, 6137), (6144, 6157),
       (6159, 6169), (6176, 6264), (6272, 6314), (6320, 6389), (6400, 6430), (6432, 6443),
       (6448, 6459), (6464, 6464), (6468, 6509), (6512, 6516), (6528, 6571), (6576, 6601),
       (6608, 6618), (6622, 6683), (6686, 6750), (6752, 6780), (6783, 6793), (6800, 6809),
       (6816, 6829), (6832, 6862), (6912, 6988), (6992, 7038), (7040, 7155), (7164, 7223),
       (7227, 7241), (7245, 7304), (7312, 7354), (7357, 7367), (7376, 7418), (7424, 7957),
       (7960, 7965), (7968, 8005), (8008, 8013), (8016, 8023), (8025, 8025), (8027, 8027),
       (8029, 8029), (8031, 8061), (8064, 8116), (8118, 8132), (8134, 8147), (8150, 8155),
       (8157, 8175), (8178, 8180), (8182, 8190), (8208, 8231), (8240, 8286), (8304, 8305),
       (8308, 8334), (8336, 8348), (8352, 8384), (8400, 8432), (8448, 8587), (8592, 9254),
       (9280, 9290), (9312, 11123), (11126, 11157), (11159, 11507), (11513, 11557),
       (11559, 11559), (11565, 11565), (11568, 11623), (11631, 11632), (11647, 11670),
       (11680, 11686), (11688, 11694), (11696, 11702), (11704, 11710), (11712, 11718),
       (11720, 11726), (11728, 11734), (11736, 11742), (11744, 11869), (11904, 11929),
       (11931, 12019), (12032, 12245), (12272, 12283), (12289, 12351), (12353, 12438),
       (12441, 12543), (12549, 12591), (12593, 12686), (12688, 12771), (12784, 12830),
       (12832, 42124), (42128, 42182), (42192, 42539), (42560, 42743), (42752, 42954),
       (42960, 42961), (42963, 42963), (42965, 42969), (42994, 43052), (43056, 43065),
       (43072, 43127), (43136, 43205), (43214, 43225), (43232, 43347), (43359, 43388),
       (43392, 43469), (43471, 43481), (43486, 43518), (43520, 43574), (43584, 43597),
       (43600, 43609), (43612, 43714), (43739, 43766), (43777, 43782), (43785, 43790),
       (43793, 43798), (43808, 43814), (43816, 43822), (43824, 43883), (43888, 44013),
       (44016, 44025), (44032, 55203), (55216, 55238), (55243, 55291), (63744, 64109),
       (64112, 64217), (64256, 64262), (64275, 64279), (64285, 64310), (64312, 64316),
       (64318, 64318), (64320, 64321), (64323, 64324), (64326, 64450), (64467, 64911),
       (64914, 64967), (64975, 64975), (65008, 65049), (65056, 65106), (65108, 65126),
       (65128, 65131), (65136, 65140), (65142, 65276), (65281, 65470), (65474, 65479),
       (65482, 65487), (65490, 65495), (65498, 65500), (65504, 65510), (65512, 65518),
       (65532, 65533), (65536, 65547), (65549, 65574), (65576, 65594), (65596, 65597),
       (65599, 65613), (65616, 65629), (65664, 65786), (65792, 65794), (65799, 65843),
       (65847, 65934), (65936, 65948), (65952, 65952), (66000, 66045), (66176, 66204),
       (66208, 66256), (66272, 66299), (66304, 66339), (66349, 66378), (66384, 66426),
       (66432, 66461), (66463, 66499), (66504, 66517), (66560, 66717), (66720, 66729),
       (66736, 66771), (66776, 66811), (66816, 66855), (66864, 66915), (66927, 66938),
       (66940, 66954), (66956, 66962), (66964, 66965), (66967, 66977), (66979, 66993),
       (66995, 67001), (67003, 67004), (67072, 67382), (67392, 67413), (67424, 67431),
       (67456, 67461), (67463, 67504), (67506, 67514), (67584, 67589), (67592, 67592),
       (67594, 67637), (67639, 67640), (67644, 67644), (67647, 67669), (67671, 67742),
       (67751, 67759), (67808, 67826), (67828, 67829), (67835, 67867), (67871, 67897),
       (67903, 67903), (67968, 68023), (68028, 68047), (68050, 68099), (68101, 68102),
       (68108, 68115), (68117, 68119), (68121, 68149), (68152, 68154), (68159, 68168),
       (68176, 68184), (68192, 68255), (68288, 68326), (68331, 68342), (68352, 68405),
       (68409, 68437), (68440, 68466), (68472, 68497), (68505, 68508), (68521, 68527),
       (68608, 68680), (68736, 68786), (68800, 68850), (68858, 68903), (68912, 68921),
       (69216, 69246), (69248, 69289), (69291, 69293), (69296, 69297), (69376, 69415),
       (69424, 69465), (69488, 69513), (69552, 69579), (69600, 69622), (69632, 69709),
       (69714, 69749), (69759, 69820), (69822, 69826), (69840, 69864), (69872, 69881),
       (69888, 69940), (69942, 69959), (69968, 70006), (70016, 70111), (70113, 70132),
       (70144, 70161), (70163, 70206), (70272, 70278), (70280, 70280), (70282, 70285),
       (70287, 70301), (70303, 70313), (70320, 70378), (70384, 70393), (70400, 70403),
       (70405, 70412), (70415, 70416), (70419, 70440), (70442, 70448), (70450, 70451),
       (70453, 70457), (70459, 70468), (70471, 70472), (70475, 70477), (70480, 70480),
       (70487, 70487), (70493, 70499), (70502, 70508), (70512, 70516), (70656, 70747),
       (70749, 70753), (70784, 70855), (70864, 70873), (71040, 71093), (71096, 71133),
       (71168, 71236), (71248, 71257), (71264, 71276), (71296, 71353), (71360, 71369),
       (71424, 71450), (71453, 71467), (71472, 71494), (71680, 71739), (71840, 71922),
       (71935, 71942), (71945, 71945), (71948, 71955), (71957, 71958), (71960, 71989),
       (71991, 71992), (71995, 72006), (72016, 72025), (72096, 72103), (72106, 72151),
       (72154, 72164), (72192, 72263), (72272, 72354), (72368, 72440), (72704, 72712),
       (72714, 72758), (72760, 72773), (72784, 72812), (72816, 72847), (72850, 72871),
       (72873, 72886), (72960, 72966), (72968, 72969), (72971, 73014), (73018, 73018),
       (73020, 73021), (73023, 73031), (73040, 73049), (73056, 73061), (73063, 73064),
       (73066, 73102), (73104, 73105), (73107, 73112), (73120, 73129), (73440, 73464),
       (73648, 73648), (73664, 73713), (73727, 74649), (74752, 74862), (74864, 74868),
       (74880, 75075), (77712, 77810), (77824, 78894), (82944, 83526), (92160, 92728),
       (92736, 92766), (92768, 92777), (92782, 92862), (92864, 92873), (92880, 92909),
       (92912, 92917), (92928, 92997), (93008, 93017), (93019, 93025), (93027, 93047),
       (93053, 93071), (93760, 93850), (93952, 94026), (94031, 94087), (94095, 94111),
       (94176, 94180), (94192, 94193), (94208, 100343), (100352, 101589), (101632, 101640),
       (110576, 110579), (110581, 110587), (110589, 110590), (110592, 110882),
       (110928, 110930), (110948, 110951), (110960, 111355), (113664, 113770),
       (113776, 113788), (113792, 113800), (113808, 113817), (113820, 113823),
       (118528, 118573), (118576, 118598), (118608, 118723), (118784, 119029),
       (119040, 119078), (119081, 119154), (119163, 119274), (119296, 119365),
       (119520, 119539), (119552, 119638), (119648, 119672), (119808, 119892),
       (119894, 119964), (119966, 119967), (119970, 119970), (119973, 119974),
       (119977, 119980), (119982, 119993), (119995, 119995), (119997, 120003),
       (120005, 120069), (120071, 120074), (120077, 120084), (120086, 120092),
       (120094, 120121), (120123, 120126), (120128, 120132), (120134, 120134),
       (120138, 120144), (120146, 120485), (120488, 120779), (120782, 121483),
       (121499, 121503), (121505, 121519), (122624, 122654), (122880, 122886),
       (122888, 122904), (122907, 122913), (122915, 122916), (122918, 122922),
       (123136, 123180), (123184, 123197), (123200, 123209), (123214, 123215),
       (123536, 123566), (123584, 123641), (123647, 123647), (124896, 124902),
       (124904, 124907), (124909, 124910), (124912, 124926), (124928, 125124),
       (125127, 125142), (125184, 125259), (125264, 125273), (125278, 125279),
       (126065, 126132), (126209, 126269), (126464, 126467), (126469, 126495),
       (126497, 126498), (126500, 126500), (126503, 126503), (126505, 126514),
       (126516, 126519), (126521, 126521), (126523, 126523), (126530, 126530),
       (126535, 126535), (126537, 126537), (126539, 126539), (126541, 126543),
       (126545, 126546), (126548, 126548), (126551, 126551), (126553, 126553),
       (126555, 126555), (126557, 126557), (126559, 126559), (126561, 126562),
       (126564, 126564), (126567, 126570), (126572, 126578), (126580, 126583),
       (126585, 126588), (126590, 126590), (126592, 126601), (126603, 126619),
       (126625, 126627), (126629, 126633), (126635, 126651), (126704, 126705),
       (126976, 127019), (127024, 127123), (127136, 127150), (127153, 127167),
       (127169, 127183), (127185, 127221), (127232, 127405), (127462, 127490),
       (127504, 127547), (127552, 127560), (127568, 127569), (127584, 127589),
       (127744, 128727), (128733, 128748), (128752, 128764), (128768, 128883),
       (128896, 128984), (128992, 129003), (129008, 129008), (129024, 129035),
       (129040, 129095), (129104, 129113), (129120, 129159), (129168, 129197),
       (129200, 129201), (129280, 129619), (129632, 129645), (129648, 129652),
       (129656, 129660), (129664, 129670), (129680, 129708), (129712, 129722),
       (129728, 129733), (129744, 129753), (129760, 129767), (129776, 129782),
       (129792, 129938), (129940, 129994), (130032, 130041), (131072, 173791),
       (173824, 177976), (177984, 178205), (178208, 183969), (183984, 191456),
       (194560, 195101), (196608, 201546), (917760, 917999)]"

definition dec_printable :: "nat \<Rightarrow> bool" where
  "dec_printable c = list_ex (\<lambda>r. fst r \<le> c \<and> c \<le> snd r) printable_ranges"

fun nat_of_digits :: "nat \<Rightarrow> pystr \<Rightarrow> nat" where
  "nat_of_digits acc [] = acc"
| "nat_of_digits acc (c # cs) = nat_of_digits (10 * acc + digit_val c) cs"

text \<open>
  \<^verbatim>\<open>float(s)\<close> on a string of digits and dots (46): at most one dot and at least one
  digit, \<^verbatim>\<open>ValueError\<close> otherwise. The digits of every script are read by their value.
\<close>

definition dec_of_str :: "pystr \<Rightarrow> dec option" where
  "dec_of_str s =
     (let ip = takeWhile dec_digit s; r = dropWhile dec_digit s in
      if r = [] then (if ip = [] then None else Some (Dec (int (nat_of_digits 0 ip)) 0))
      else if hd r = 46 \<and> list_all dec_digit (tl r) \<and> (ip \<noteq> [] \<or> tl r \<noteq> [])
           then Some (Dec (int (nat_of_digits 0 (ip @ tl r))) (length (tl r)))
           else None)"

definition pad2 :: "nat \<Rightarrow> pystr" where
  "pad2 n = (if n < 10 then 48 # str_of_nat n else str_of_nat n)"

text \<open>The value in hundredths, rounded half to even.\<close>

definition dec_cents :: "dec \<Rightarrow> int" where
  "dec_cents d =
     (case d of Dec m e \<Rightarrow>
        if e \<le> 2 then m * 10 ^ (2 - e)
        else (let p = 10 ^ (e - 2); q = m div p; r = m mod p in
              if 2 * r < p then q else if p < 2 * r then q + 1
              else if even q then q else q + 1))"

definition dec_fmt2 :: "dec \<Rightarrow> pystr" where
  "dec_fmt2 d =
     (let c = dec_cents d; a = nat \<bar>c\<bar> in
      (if c < 0 then py ''-'' else []) @ str_of_nat (a div 100) @ py ''.'' @ pad2 (a mod 100))"

definition dec_repr :: "dec \<Rightarrow> pystr" where
  "dec_repr d =
     (case d of Dec m e \<Rightarrow>
        (let a = nat \<bar>m\<bar>; fr = a mod 10 ^ e;
             ds = replicate (e - length (str_of_nat fr)) 48 @ str_of_nat fr;
             ds' = rev (dropWhile (\<lambda>c. c = 48) (rev ds))
         in (if m < 0 then py ''-'' else []) @ str_of_nat (a div 10 ^ e) @ py ''.'' @
            (if e = 0 \<or> ds' = [] then py ''0'' else ds')))"

definition dec_promo_less :: "dec \<Rightarrow> dec \<Rightarrow> bool" where
  "dec_promo_less t b =
     (case t of Dec tm te \<Rightarrow> case b of Dec bm be \<Rightarrow>
        tm * 10 ^ be * 10 ^ 9 < bm * 10 ^ te * 10 ^ 9 - 10 ^ te * 10 ^ be)"

definition dec_rt :: "dec pyrt" where
  "dec_rt = \<lparr>rt_float_of_int = dec_of_int,
             rt_float_of_str = dec_of_str,
             rt_float_bool = (\<lambda>d. case d of Dec m e \<Rightarrow> m \<noteq> 0),
             rt_float_repr = dec_repr,
             rt_float_fmt2 = dec_fmt2,
             rt_promo_less = dec_promo_less,
             rt_unicode_digit = dec_digit,
             rt_unicode_space = dec_space,
             rt_unicode_printable = dec_printable\<rparr>"

text \<open>
  A scripted platform: its state is the list of the replies still to come, and each
  request takes the next one, whatever it asks; when the script is over every
  request raises. The clock is stopped.
\<close>

definition script_env :: "('f reply list, 'f) env" where
  "script_env =
     \<lparr>send = (\<lambda>w rq. case w of [] \<Rightarrow> (Raises (py ''Timeout 15000ms exceeded''), [])
                               | r # rs \<Rightarrow> (r, rs)),
      now_str = (\<lambda>w. py ''2024-01-01 00:00:00'')\<rparr>"

definition ok_json :: "'f json \<Rightarrow> 'f reply" where
  "ok_json j = Response True (Some j)"

section \<open>Notions used to state the properties\<close>

text \<open>
  The step of the per-item sequence a call belongs to: search 1, detail fetch 2, cart
  add 3, price read 4, cart cleanup 5; the requests of \<^verbatim>\<open>Cart.create\<close> are no step
  of it.
\<close>

fun step_no :: "'f request \<Rightarrow> nat" where
  "step_no (SearchReq q) = 1"
| "step_no (DetailReq c) = 2"
| "step_no (AddEntryReq c p) = 3"
| "step_no (GetPricesReq c) = 4"
| "step_no (RemoveReq c) = 5"
| "step_no r = 0"

text \<open>The calls that one iteration of the loop adds to the calls made before it.\<close>

definition item_calls ::
  "'f pyrt \<Rightarrow> ('w, 'f) env \<Rightarrow> 'f json \<Rightarrow> 'f json \<Rightarrow> ('w, 'f) state \<Rightarrow>
     ('f request \<times> 'f reply) list" where
  "item_calls rt env cart_id upc st =
     drop (length (calls st)) (calls (process_upc rt env cart_id upc st))"

definition count_step :: "nat \<Rightarrow> ('f request \<times> 'f reply) list \<Rightarrow> nat" where
  "count_step n evs = length (filter (\<lambda>e. step_no (fst e) = n) evs)"

text \<open>
  A detail reply matches the identifier when the loop over the candidates stops on it:
  \<^verbatim>\<open>dj and upc_matches(dj, upc)\<close> holds for the value \<^verbatim>\<open>dj\<close> that \<^verbatim>\<open>OCC.detail\<close>
  makes of the reply.
\<close>

definition detail_matches :: "'f pyrt \<Rightarrow> 'f json \<Rightarrow> 'f reply \<Rightarrow> bool" where
  "detail_matches rt upc rp =
     (case detail_result rp of
        Inl e \<Rightarrow> False
      | Inr dj \<Rightarrow> truthy rt dj \<and> upc_matches rt dj upc = Inr True)"

text \<open>The candidates that the loop of \<^verbatim>\<open>main\<close> goes through for a search reply.\<close>

definition candidates :: "'f pyrt \<Rightarrow> 'f reply \<Rightarrow> 'f json list" where
  "candidates rt rp =
     (case search_result rt rp of
        Inl e \<Rightarrow> []
      | Inr p \<Rightarrow> (case py_iter p of Inl e \<Rightarrow> [] | Inr pdts \<Rightarrow> pdts))"

text \<open>
  The shapes the calls of one iteration can take. The searches: the search for the
  identifier alone, or followed by the fallback search when it gave nothing.
\<close>

definition searches_ok :: "'f pyrt \<Rightarrow> 'f json \<Rightarrow> ('f request \<times> 'f reply) list \<Rightarrow> bool" where
  "searches_ok rt upc ss =
     (case ss of
        [e1] \<Rightarrow> fst e1 = SearchReq upc \<and>
                 (case search_result rt (snd e1) of Inl e \<Rightarrow> True | Inr p \<Rightarrow> truthy rt p)
      | [e1, e2] \<Rightarrow> fst e1 = SearchReq upc \<and>
                 fst e2 = SearchReq (JStr (py '':relevance:freeText:'' @ py_str rt upc)) \<and>
                 (case search_result rt (snd e1) of Inl e \<Rightarrow> False | Inr p \<Rightarrow> \<not> truthy rt p)
      | _ \<Rightarrow> False)"

text \<open>
  The price reads after a successful cart add: one read, and a second one when the
  first gave nothing; the removal follows unless a read raised.
\<close>

definition reads_ok :: "'f pyrt \<Rightarrow> 'f json \<Rightarrow> ('f request \<times> 'f reply) list \<Rightarrow> bool" where
  "reads_ok rt cart_id ps =
     (case ps of
        [] \<Rightarrow> False
      | e1 # ps1 \<Rightarrow>
          fst e1 = GetPricesReq cart_id \<and>
          (case get_prices_result rt (snd e1) of
             Inl e \<Rightarrow> ps1 = []
           | Inr (Some g) \<Rightarrow> map fst ps1 = [RemoveReq cart_id]
           | Inr None \<Rightarrow>
               (case ps1 of
                  [] \<Rightarrow> False
                | e2 # ps2 \<Rightarrow>
                    fst e2 = GetPricesReq cart_id \<and>
                    (case get_prices_result rt (snd e2) of
                       Inl e \<Rightarrow> ps2 = []
                     | Inr g \<Rightarrow> map fst ps2 = [RemoveReq cart_id]))))"

definition cart_calls_ok ::
  "'f pyrt \<Rightarrow> 'f json \<Rightarrow> 'f json \<Rightarrow> ('f request \<times> 'f reply) list \<Rightarrow> bool" where
  "cart_calls_ok rt cart_id code evs =
     (case evs of
        [] \<Rightarrow> False
      | e # ps \<Rightarrow>
          fst e = AddEntryReq cart_id code \<and>
          (if add_entry_result (snd e) = Inr True then reads_ok rt cart_id ps else ps = []))"

text \<open>
  The calls of one iteration: the searches, then the detail fetches, none of which
  matches except possibly the last, then, after a match, the cart calls for the code of
  the matching candidate.
\<close>

definition item_shape ::
  "'f pyrt \<Rightarrow> 'f json \<Rightarrow> 'f json \<Rightarrow> ('f request \<times> 'f reply) list \<Rightarrow> bool" where
  "item_shape rt cart_id upc xs =
     (\<exists>ss ds evs.
        xs = ss @ ds @ evs \<and> searches_ok rt upc ss \<and>
        (\<forall>e\<in>set ds. step_no (fst e) = 2) \<and>
        length ds \<le> length (candidates rt (snd (last ss))) \<and>
        ((\<forall>e\<in>set ds. \<not> detail_matches rt upc (snd e)) \<and> evs = []
         \<or> (\<exists>pre c rp. ds = pre @ [(DetailReq c, rp)] \<and> detail_matches rt upc rp \<and>
              (\<forall>e\<in>set pre. \<not> detail_matches rt upc (snd e)) \<and>
              (evs = [] \<or> cart_calls_ok rt cart_id c evs))))"

subsection \<open>The values that the identifier match looks at\<close>

text \<open>
  The values of a detail record in the three field shapes of \<^verbatim>\<open>upc_matches\<close>: the
  five direct fields, the elements of the three list fields, and, in the
  classifications, the \<^verbatim>\<open>value\<close> of every feature value and of every feature. A
  field that cannot be read counts as \<^verbatim>\<open>None\<close>, a value that cannot be iterated as
  empty.
\<close>

definition get_or_none :: "'f json \<Rightarrow> pystr \<Rightarrow> 'f json" where
  "get_or_none d k = (case dict_get d k of Inl e \<Rightarrow> JNull | Inr v \<Rightarrow> v)"

definition iter_or_empty :: "'f pyrt \<Rightarrow> 'f json \<Rightarrow> 'f json list" where
  "iter_or_empty rt v = (case py_iter (py_or rt v (JArr [])) of Inl e \<Rightarrow> [] | Inr xs \<Rightarrow> xs)"

definition direct_values :: "'f json \<Rightarrow> 'f json list" where
  "direct_values d = map (get_or_none d) [py ''gtin'', py ''ean'', py ''upc'', py ''sku'', py ''visualCode'']"

definition list_values :: "'f pyrt \<Rightarrow> 'f json \<Rightarrow> 'f json list" where
  "list_values rt d =
     concat (map (\<lambda>k. iter_or_empty rt (get_or_none d k)) [py ''eans'', py ''gtins'', py ''upcs''])"

definition feature_values :: "'f pyrt \<Rightarrow> 'f json \<Rightarrow> 'f json list" where
  "feature_values rt feat =
     map (\<lambda>val. get_or_none val (py ''value'')) (iter_or_empty rt (get_or_none feat (py ''featureValues'')))
     @ [get_or_none feat (py ''value'')]"

definition classification_values :: "'f pyrt \<Rightarrow> 'f json \<Rightarrow> 'f json list" where
  "classification_values rt d =
     concat (map (\<lambda>cl. concat (map (feature_values rt) (iter_or_empty rt (get_or_none cl (py ''features'')))))
               (iter_or_empty rt (get_or_none d (py ''classifications''))))"

definition identifier_values :: "'f pyrt \<Rightarrow> 'f json \<Rightarrow> 'f json list" where
  "identifier_values rt d = direct_values d @ list_values rt d @ classification_values rt d"

text \<open>
  The match as the specification words it, by substring: the digits of the identifier
  occur, as a contiguous part, in the printed form of one of those values. It is
  compared below with \<^verbatim>\<open>upc_matches\<close> of the source.
\<close>

fun is_substring :: "pystr \<Rightarrow> pystr \<Rightarrow> bool" where
  "is_substring t [] = (t = [])"
| "is_substring t (c # s) = (take (length t) (c # s) = t \<or> is_substring t s)"

definition upc_matches_by_substring :: "'f pyrt \<Rightarrow> 'f json \<Rightarrow> 'f json \<Rightarrow> bool" where
  "upc_matches_by_substring rt detail_json upc =
     (let t = clean_digits rt upc in
      t \<noteq> [] \<and> list_ex (\<lambda>v. is_substring t (py_str rt v)) (identifier_values rt detail_json))"

subsection \<open>Replies used in the concrete runs\<close>

definition ex_product :: "dec json" where
  "ex_product = JObj [(py ''code'', JStr (py ''P1'')), (py ''name'', JStr (py ''Aspirina ''))]"

definition ex_detail :: "dec json" where
  "ex_detail = JObj [(py ''gtin'', JStr (py ''7501'')), (py ''name'', JStr (py '' Aspirina 500 ''))]"

definition ex_other_detail :: "dec json" where
  "ex_other_detail = JObj [(py ''gtin'', JStr (py ''0000'')), (py ''name'', JStr (py ''Otro''))]"

definition ex_search :: "dec reply" where
  "ex_search = ok_json (JObj [(py ''products'', JArr [ex_product])])"

definition ex_start :: "dec reply list \<Rightarrow> (dec reply list, dec) state" where
  "ex_start w = \<lparr>world = w, calls = [], rows = []\<rparr>"

section \<open>The utilities\<close>

lemma py_str_JStr: "py_str rt (JStr s) = s"
  by (simp add: py_str_def)

lemma clean_digits_JStr: "clean_digits rt (JStr r) = filter (is_digit rt) r"
  by (cases "r = []") (simp_all add: clean_digits_def py_or_def py_str_def)

text \<open>
  C10. \<^verbatim>\<open>clean_digits\<close> returns decimal digits only (every character of the result is
  in the class \<^verbatim>\<open>\d\<close>), maps \<^verbatim>\<open>None\<close> to the empty string, and is idempotent: applied
  to its own result (a string) it gives that result back.
\<close>

theorem clean_digits_only_digits_idempotent:
  "list_all (is_digit rt) (clean_digits rt s)
   \<and> clean_digits rt JNull = []
   \<and> clean_digits rt (JStr (clean_digits rt s)) = clean_digits rt s"
proof -
  have a: "list_all (is_digit rt) (clean_digits rt s)"
    unfolding clean_digits_def by (simp add: list_all_iff)
  have b: "clean_digits rt JNull = []"
    by (simp add: clean_digits_def py_or_def py_str_def)
  have d: "clean_digits rt (JStr (clean_digits rt s)) = clean_digits rt s"
    unfolding clean_digits_JStr by (simp add: clean_digits_def)
  from a b d show ?thesis by blast
qed

text \<open>
  The digits are those of every script: of the string made of the Arabic-Indic digit
  three (code point 1635), \<^verbatim>\<open>7\<close>, \<^verbatim>\<open>-\<close> and \<^verbatim>\<open>5\<close>, the hyphen alone is removed.
\<close>

theorem clean_digits_only_digits_idempotent_witness:
  "clean_digits dec_rt (JStr [1635, 55, 45, 53]) = [1635, 55, 53]
   \<and> list_all (is_digit dec_rt) [1635, 55, 53]
   \<and> clean_digits dec_rt (JStr [1635, 55, 53]) = [1635, 55, 53]"
proof -
  have v: "clean_digits dec_rt (JStr [1635, 55, 45, 53]) = [1635, 55, 53]"
    by code_simp
  show ?thesis
    using clean_digits_only_digits_idempotent[of dec_rt "JStr [1635, 55, 45, 53]"]
    unfolding v by simp
qed

lemma takeWhile_Nil_hd: "(takeWhile P xs = []) = (xs = [] \<or> \<not> P (hd xs))"
  by (cases xs) auto

lemma re_search_run_None: "(re_search_run rt s = None) = (filter (num_class rt) s = [])"
proof -
  let ?d = "dropWhile (\<lambda>c. \<not> num_class rt c) s"
  have a: "(takeWhile (num_class rt) ?d = []) = (?d = [])"
    using hd_dropWhile[of "\<lambda>c. \<not> num_class rt c" s] takeWhile_Nil_hd[of "num_class rt" ?d]
    by blast
  have b: "(?d = []) = (filter (num_class rt) s = [])"
    by (simp add: filter_empty_conv dropWhile_eq_Nil_conv)
  have "(re_search_run rt s = None) = (takeWhile (num_class rt) ?d = [])"
    by (simp add: re_search_run_def Let_def)
  with a b show ?thesis by blast
qed

text \<open>
  The run that \<^verbatim>\<open>re.search\<close> finds is the first one: whenever the string splits into
  a part without digits, dots and commas, a non-empty run of them, and a rest that
  does not go on with one, the match is that run.
\<close>

lemma re_search_run_first:
  assumes s: "s = pre @ g @ post"
    and pre: "filter (num_class rt) pre = []"
    and g: "g \<noteq> []" "filter (num_class rt) g = g"
    and post: "post = [] \<or> \<not> num_class rt (hd post)"
  shows "re_search_run rt s = Some g"
proof -
  from pre have p: "\<forall>c\<in>set pre. \<not> num_class rt c"
    by (simp add: filter_empty_conv)
  from g(2) have ga: "\<forall>c\<in>set g. num_class rt c"
    by (simp add: filter_id_conv)
  with g(1) have hg: "num_class rt (hd g)"
    by simp
  have "dropWhile (\<lambda>c. \<not> num_class rt c) s = dropWhile (\<lambda>c. \<not> num_class rt c) (g @ post)"
    unfolding s using p by (simp add: dropWhile_append2)
  also have "\<dots> = g @ post"
    using g(1) hg by (cases g) simp_all
  finally have d: "dropWhile (\<lambda>c. \<not> num_class rt c) s = g @ post" .
  have "takeWhile (num_class rt) (g @ post) = g @ takeWhile (num_class rt) post"
    using ga by (simp add: takeWhile_append2)
  also have "takeWhile (num_class rt) post = []"
    using post by (simp add: takeWhile_Nil_hd)
  finally have "takeWhile (num_class rt) (g @ post) = g" by simp
  with d g(1) show ?thesis
    by (simp add: re_search_run_def Let_def)
qed

text \<open>
  C9, amended. \<^verbatim>\<open>num\<close> is a total function into \<^verbatim>\<open>float\<close> or \<^verbatim>\<open>None\<close>. It gives
  \<^verbatim>\<open>None\<close> on \<^verbatim>\<open>None\<close> and on booleans, the float itself on a float, and on an
  integer the result of \<^verbatim>\<open>float\<close>, which is \<^verbatim>\<open>None\<close> when that conversion
  overflows. On a string, a list or a dictionary it gives \<^verbatim>\<open>None\<close> when the printed
  value holds no digit, dot or comma, and otherwise \<^verbatim>\<open>float\<close> of the first run of
  them, commas (44) removed (\<^verbatim>\<open>None\<close> when that does not parse).
\<close>

theorem num_total_cases:
  "num rt JNull = None
   \<and> num rt (JBool b) = None
   \<and> num rt (JFloat v) = Some v
   \<and> num rt (JInt i) = rt_float_of_int rt i
   \<and> (x \<in> {JStr s, JArr xs, JObj kvs} \<longrightarrow> filter (num_class rt) (py_str rt x) = []
        \<longrightarrow> num rt x = None)
   \<and> (x \<in> {JStr s, JArr xs, JObj kvs} \<longrightarrow>
        py_str rt x = pre @ g @ post \<longrightarrow> filter (num_class rt) pre = [] \<longrightarrow>
        g \<noteq> [] \<longrightarrow> filter (num_class rt) g = g \<longrightarrow> (post = [] \<or> \<not> num_class rt (hd post))
        \<longrightarrow> num rt x = rt_float_of_str rt (filter (\<lambda>c. c \<noteq> 44) g))"
proof -
  have other: "num rt x =
      (case re_search_run rt (py_str rt x) of
         None \<Rightarrow> None
       | Some g \<Rightarrow> rt_float_of_str rt (filter (\<lambda>c. c \<noteq> 44) g))"
    if "x \<in> {JStr s, JArr xs, JObj kvs}"
    using that by (auto simp: num_def)
  have none: "num rt x = None"
    if "x \<in> {JStr s, JArr xs, JObj kvs}" "filter (num_class rt) (py_str rt x) = []"
    using that(2) other[OF that(1)] re_search_run_None[of rt "py_str rt x"] by simp
  have some: "num rt x = rt_float_of_str rt (filter (\<lambda>c. c \<noteq> 44) g)"
    if "x \<in> {JStr s, JArr xs, JObj kvs}" "py_str rt x = pre @ g @ post"
      "filter (num_class rt) pre = []" "g \<noteq> []" "filter (num_class rt) g = g"
      "post = [] \<or> \<not> num_class rt (hd post)"
    using other[OF that(1)] re_search_run_first[OF that(2-6)] by simp
  show ?thesis
    using none some by (simp add: num_def)
qed

theorem num_total_cases_witness:
  "num dec_rt (JStr (py ''abc'')) = None
   \<and> num dec_rt (JStr (py ''$1,234.50 MXN 7'')) = Some (Dec 123450 2)
   \<and> num dec_rt (JInt 12) = Some (Dec 12 0)"
proof -
  have a: "num dec_rt (JStr (py ''abc'')) = None"
    using num_total_cases[of dec_rt _ _ _ "JStr (py ''abc'')" "py ''abc''"]
    by (simp add: py_str_def num_class_def is_digit_def py_def)
  have b: "num dec_rt (JStr (py ''$1,234.50 MXN 7'')) = rt_float_of_str dec_rt (py ''1234.50'')"
    using num_total_cases[of dec_rt _ _ _ "JStr (py ''$1,234.50 MXN 7'')" "py ''$1,234.50 MXN 7''" _ _
        "py ''$''" "py ''1,234.50''" "py '' MXN 7''"]
    by (simp add: py_str_def num_class_def is_digit_def py_def)
  have c: "rt_float_of_str dec_rt (py ''1234.50'') = Some (Dec 123450 2)"
    by code_simp
  have d: "num dec_rt (JInt 12) = rt_float_of_int dec_rt 12"
    using num_total_cases[of dec_rt _ _ 12] by simp
  have e: "rt_float_of_int dec_rt 12 = Some (Dec 12 0)"
    by (simp add: dec_rt_def dec_of_int_def)
  from a b c d e show ?thesis by simp
qed

text \<open>
  An integer does not always give a float: the integer \<open>2 ^ 1024\<close> is beyond the
  floats, \<^verbatim>\<open>float\<close> raises \<^verbatim>\<open>OverflowError\<close> inside the \<^verbatim>\<open>try\<close>, and \<^verbatim>\<open>num\<close>
  returns \<^verbatim>\<open>None\<close>.
\<close>

theorem num_int_overflow_counterexample:
  "num dec_rt (JInt (2 ^ 1024)) = None"
  by (simp add: num_def dec_rt_def dec_of_int_def)

section \<open>The identifier match\<close>

lemma loop_until_char:
  assumes "\<And>x c. x \<in> set xs \<Longrightarrow> f x = Inr c \<Longrightarrow> c = P x"
    and "loop_until f xs = Inr b"
  shows "b = (\<exists>x\<in>set xs. P x)"
  using assms
proof (induction xs)
  case Nil
  then show ?case by simp
next
  case (Cons x xs)
  show ?case
  proof (cases "f x")
    case (Inl e)
    with Cons.prems(2) show ?thesis by simp
  next
    case (Inr c)
    with Cons.prems(1)[of x c] have c: "c = P x" by simp
    show ?thesis
    proof (cases c)
      case True
      with Inr Cons.prems(2) c show ?thesis by auto
    next
      case False
      with Inr Cons.prems(2) have "loop_until f xs = Inr b" by simp
      with Cons.IH Cons.prems(1) have "b = (\<exists>x\<in>set xs. P x)" by auto
      with False c show ?thesis by simp
    qed
  qed
qed

lemma loop_until_pure: "loop_until (\<lambda>v. Inr (P v)) xs = Inr (\<exists>x\<in>set xs. P x)"
  by (induction xs) auto

lemma dict_get_or_none: "dict_get d k = Inr v \<Longrightarrow> get_or_none d k = v"
  by (simp add: get_or_none_def)

lemma dict_get_default_or_none:
  "dict_get_default d k (JArr []) = Inr v \<Longrightarrow> py_or rt v (JArr []) = py_or rt (get_or_none d k) (JArr [])"
  by (cases d) (auto simp: get_or_none_def py_or_def split: option.splits)

lemma match_direct_char:
  assumes "match_direct rt d t = Inr b"
  shows "b = (\<exists>v\<in>set (direct_values d). clean_digits rt v = t)"
proof -
  have "b = (\<exists>k\<in>set [py ''gtin'', py ''ean'', py ''upc'', py ''sku'', py ''visualCode''].
               clean_digits rt (get_or_none d k) = t)"
    by (rule loop_until_char[OF _ assms[unfolded match_direct_def]])
       (auto simp: ebind_def split: sum.splits dest: dict_get_or_none)
  then show ?thesis by (simp add: direct_values_def)
qed

lemma match_lists_char:
  assumes "match_lists rt d t = Inr b"
  shows "b = (\<exists>v\<in>set (list_values rt d). clean_digits rt v = t)"
proof -
  have "b = (\<exists>k\<in>set [py ''eans'', py ''gtins'', py ''upcs''].
               \<exists>v\<in>set (iter_or_empty rt (get_or_none d k)). clean_digits rt v = t)"
  proof (rule loop_until_char[OF _ assms[unfolded match_lists_def]])
    fix k c
    assume "ebind (dict_get d k) (\<lambda>got.
         case ebind (py_iter (py_or rt got (JArr [])))
                (loop_until (\<lambda>v. Inr (clean_digits rt v = t))) of
           Inl e \<Rightarrow> Inr False
         | Inr b \<Rightarrow> Inr b) = Inr c"
    then show "c = (\<exists>v\<in>set (iter_or_empty rt (get_or_none d k)). clean_digits rt v = t)"
      by (auto simp: ebind_def iter_or_empty_def loop_until_pure split: sum.splits
          dest!: dict_get_or_none)
  qed
  then show ?thesis by (auto simp: list_values_def)
qed

lemma match_feature_char:
  assumes "match_feature rt t feat = Inr c"
  shows "c = (\<exists>v\<in>set (feature_values rt feat). clean_digits rt v = t)"
proof -
  from assms obtain fvs vals found where
    f: "dict_get_default feat (py ''featureValues'') (JArr []) = Inr fvs"
    and v: "py_iter (py_or rt fvs (JArr [])) = Inr vals"
    and l: "loop_until (\<lambda>val. ebind (dict_get val (py ''value'')) (\<lambda>v. Inr (clean_digits rt v = t))) vals
            = Inr found"
    and r: "(if found then Inr True
             else ebind (dict_get feat (py ''value'')) (\<lambda>v. Inr (clean_digits rt v = t))) = Inr c"
    by (auto simp: match_feature_def ebind_def split: sum.splits)
  have vals: "iter_or_empty rt (get_or_none feat (py ''featureValues'')) = vals"
    using dict_get_default_or_none[OF f, of rt] v by (simp add: iter_or_empty_def)
  have found: "found = (\<exists>val\<in>set vals. clean_digits rt (get_or_none val (py ''value'')) = t)"
    by (rule loop_until_char[OF _ l])
       (auto simp: ebind_def split: sum.splits dest: dict_get_or_none)
  have last: "c = (clean_digits rt (get_or_none feat (py ''value'')) = t)" if "\<not> found"
    using r that by (auto simp: ebind_def split: sum.splits dest: dict_get_or_none)
  show ?thesis
  proof (cases found)
    case True
    with r found vals show ?thesis by (auto simp: feature_values_def)
  next
    case False
    with last found vals show ?thesis by (auto simp: feature_values_def)
  qed
qed

lemma match_classifications_char:
  assumes "match_classifications rt d t = Inr b"
  shows "b = (\<exists>v\<in>set (classification_values rt d). clean_digits rt v = t)"
proof -
  from assms obtain cls cs where
    f: "dict_get_default d (py ''classifications'') (JArr []) = Inr cls"
    and v: "py_iter (py_or rt cls (JArr [])) = Inr cs"
    and l: "loop_until (\<lambda>cl.
          ebind (dict_get_default cl (py ''features'') (JArr [])) (\<lambda>fs.
          ebind (py_iter (py_or rt fs (JArr [])))
            (loop_until (match_feature rt t)))) cs = Inr b"
    by (auto simp: match_classifications_def ebind_def split: sum.splits)
  have cs: "iter_or_empty rt (get_or_none d (py ''classifications'')) = cs"
    using dict_get_default_or_none[OF f, of rt] v by (simp add: iter_or_empty_def)
  have "b = (\<exists>cl\<in>set cs. \<exists>feat\<in>set (iter_or_empty rt (get_or_none cl (py ''features''))).
               \<exists>v\<in>set (feature_values rt feat). clean_digits rt v = t)"
  proof (rule loop_until_char[OF _ l])
    fix cl c
    assume "ebind (dict_get_default cl (py ''features'') (JArr [])) (\<lambda>fs.
          ebind (py_iter (py_or rt fs (JArr [])))
            (loop_until (match_feature rt t))) = Inr c"
    then obtain fs feats where
      a: "dict_get_default cl (py ''features'') (JArr []) = Inr fs"
      and b: "py_iter (py_or rt fs (JArr [])) = Inr feats"
      and c: "loop_until (match_feature rt t) feats = Inr c"
      by (auto simp: ebind_def split: sum.splits)
    have feats: "iter_or_empty rt (get_or_none cl (py ''features'')) = feats"
      using dict_get_default_or_none[OF a, of rt] b by (simp add: iter_or_empty_def)
    have "c = (\<exists>feat\<in>set feats. \<exists>v\<in>set (feature_values rt feat). clean_digits rt v = t)"
      by (rule loop_until_char[OF _ c]) (rule match_feature_char)
    with feats show "c = (\<exists>feat\<in>set (iter_or_empty rt (get_or_none cl (py ''features''))).
               \<exists>v\<in>set (feature_values rt feat). clean_digits rt v = t)" by simp
  qed
  with cs show ?thesis by (auto simp: classification_values_def)
qed


text \<open>
  C3, amended. Whenever \<^verbatim>\<open>upc_matches\<close> returns, it returns whether the identifier
  has digits and its digits are exactly the digits of one of the values in the three
  field shapes (direct identifier fields, identifier lists, classification feature
  values): the comparison is equality of the digit strings that \<^verbatim>\<open>clean_digits\<close>
  makes, not the search for a substring.
\<close>

theorem upc_matches_digits_equal:
  assumes "upc_matches rt detail_json upc = Inr b"
  shows "b = (clean_digits rt upc \<noteq> [] \<and>
              (\<exists>v\<in>set (identifier_values rt detail_json).
                 clean_digits rt v = clean_digits rt upc))"
proof (cases "clean_digits rt upc = []")
  case True
  with assms show ?thesis by (simp add: upc_matches_def)
next
  case False
  let ?t = "clean_digits rt upc"
  from assms False obtain b1 where
    b1: "match_direct rt detail_json ?t = Inr b1"
    and r1: "(if b1 then Inr True
              else ebind (match_lists rt detail_json ?t) (\<lambda>b2.
                   if b2 then Inr True else match_classifications rt detail_json ?t)) = Inr b"
    by (auto simp: upc_matches_def Let_def ebind_def split: sum.splits)
  note c1 = match_direct_char[OF b1]
  show ?thesis
  proof (cases b1)
    case True
    with r1 c1 False show ?thesis by (auto simp: identifier_values_def)
  next
    case nb1: False
    with r1 obtain b2 where
      b2: "match_lists rt detail_json ?t = Inr b2"
      and r2: "(if b2 then Inr True else match_classifications rt detail_json ?t) = Inr b"
      by (auto simp: ebind_def split: sum.splits)
    note c2 = match_lists_char[OF b2]
    show ?thesis
    proof (cases b2)
      case True
      with r2 c2 False show ?thesis by (auto simp: identifier_values_def)
    next
      case nb2: False
      with r2 have "match_classifications rt detail_json ?t = Inr b" by simp
      from match_classifications_char[OF this] c1 c2 nb1 nb2 False show ?thesis
        by (auto simp: identifier_values_def)
    qed
  qed
qed


theorem upc_matches_digits_equal_witness:
  "upc_matches dec_rt (JObj [(py ''gtin'', JStr (py ''75-01234''))]) (JStr (py ''7501234'')) = Inr True
   \<and> clean_digits dec_rt (JStr (py ''7501234'')) \<noteq> []"
proof -
  have h: "upc_matches dec_rt (JObj [(py ''gtin'', JStr (py ''75-01234''))]) (JStr (py ''7501234'')) = Inr True"
    by code_simp
  from upc_matches_digits_equal[OF h] have "clean_digits dec_rt (JStr (py ''7501234'')) \<noteq> []"
    by simp
  with h show ?thesis by simp
qed

text \<open>
  The identifier \<^verbatim>\<open>7501234\<close> is a substring of the field \<^verbatim>\<open>gtin = "07501234"\<close>, and
  \<^verbatim>\<open>upc_matches\<close> says that the record does not match; the field
  \<^verbatim>\<open>gtin = "75-01234"\<close> does not hold the identifier as a substring, and
  \<^verbatim>\<open>upc_matches\<close> says that it matches.
\<close>

theorem upc_matches_substring_counterexample:
  "upc_matches_by_substring dec_rt (JObj [(py ''gtin'', JStr (py ''07501234''))]) (JStr (py ''7501234''))
   \<and> upc_matches dec_rt (JObj [(py ''gtin'', JStr (py ''07501234''))]) (JStr (py ''7501234'')) = Inr False
   \<and> \<not> upc_matches_by_substring dec_rt (JObj [(py ''gtin'', JStr (py ''75-01234''))]) (JStr (py ''7501234''))
   \<and> upc_matches dec_rt (JObj [(py ''gtin'', JStr (py ''75-01234''))]) (JStr (py ''7501234'')) = Inr True"
  by code_simp

text \<open>
  The step does not always return. A feature value that is not a dictionary has no
  \<^verbatim>\<open>get\<close>, and the \<^verbatim>\<open>AttributeError\<close> leaves \<^verbatim>\<open>upc_matches\<close>: here the value of
  the feature itself has the digits of the identifier, but the loop over the feature
  values comes first.
\<close>

lemma upc_matches_raises_example:
  "upc_matches dec_rt
     (JObj [(py ''classifications'',
             JArr [JObj [(py ''features'',
                          JArr [JObj [(py ''featureValues'', JArr [JStr (py ''x'')]),
                                      (py ''value'', JStr (py ''7501''))]])]])])
     (JStr (py ''7501''))
   = Inl (no_attribute (JStr (py ''x'') :: dec json) (py ''get''))"
  by code_simp

section \<open>The calls and the rows of one iteration\<close>

text \<open>
  Every method adds its one request, with the reply, at the end of the calls and leaves
  the rows alone. From this the calls of the loop over the candidates, of the cart part
  and of the whole iteration are described, and the rows that the iteration leaves.
\<close>

lemma request_calls:
  assumes "request env rq st = (rp, st')"
  shows "calls st' = calls st @ [(rq, rp)]" and "rows st' = rows st"
  using assms by (auto simp: request_def split: prod.splits)

lemma search_calls:
  assumes "search rt env q st = (r, st')"
  shows "\<exists>rp. calls st' = calls st @ [(SearchReq q, rp)] \<and> r = search_result rt rp"
    and "rows st' = rows st"
  using assms by (auto simp: search_def split: prod.splits dest: request_calls)

lemma detail_calls:
  assumes "detail env c st = (r, st')"
  shows "\<exists>rp. calls st' = calls st @ [(DetailReq c, rp)] \<and> r = detail_result rp"
    and "rows st' = rows st"
  using assms by (auto simp: detail_def split: prod.splits dest: request_calls)

lemma add_entry_calls:
  assumes "add_entry env cid c st = (r, st')"
  shows "\<exists>rp. calls st' = calls st @ [(AddEntryReq cid c, rp)] \<and> r = add_entry_result rp"
    and "rows st' = rows st"
  using assms by (auto simp: add_entry_def split: prod.splits dest: request_calls)

lemma get_prices_calls:
  assumes "get_prices rt env cid st = (r, st')"
  shows "\<exists>rp. calls st' = calls st @ [(GetPricesReq cid, rp)] \<and> r = get_prices_result rt rp"
    and "rows st' = rows st"
  using assms by (auto simp: get_prices_def split: prod.splits dest: request_calls)

lemma remove_calls:
  shows "\<exists>rp. calls (remove env cid st) = calls st @ [(RemoveReq cid, rp)]"
    and "rows (remove env cid st) = rows st"
  by (auto simp: remove_def request_def split: prod.splits)

lemma append_row_calls [simp]:
  "calls (append_row env upc a b n st) = calls st"
  "rows (append_row env upc a b n st) = rows st @
     [\<lparr>UPC = upc, precio_sin_promocion = a, precio_con_promocion = b,
       nombre_del_producto = n, fecha_scrapping = now_str env (world st)\<rparr>]"
  by (simp_all add: append_row_def)

lemma search_or_fallback_calls:
  assumes "search_or_fallback rt env upc st = (r, st')"
  shows "rows st' = rows st"
    and "(\<exists>r1. calls st' = calls st @ [(SearchReq upc, r1)] \<and> r = search_result rt r1 \<and>
             (\<forall>p. search_result rt r1 = Inr p \<longrightarrow> truthy rt p))
         \<or> (\<exists>r1 p1 r2. search_result rt r1 = Inr p1 \<and> \<not> truthy rt p1 \<and>
              calls st' = calls st @ [(SearchReq upc, r1),
                 (SearchReq (JStr (py '':relevance:freeText:'' @ py_str rt upc)), r2)] \<and>
              r = search_result rt r2)"
proof -
  obtain a st1 where s1: "search rt env upc st = (a, st1)"
    by (cases "search rt env upc st")
  from search_calls[OF s1] obtain r1 where
    c1: "calls st1 = calls st @ [(SearchReq upc, r1)]" and a: "a = search_result rt r1"
    and w1: "rows st1 = rows st" by blast
  show "rows st' = rows st"
    using assms s1 w1
    by (auto simp: search_or_fallback_def split: sum.splits if_splits dest: search_calls(2))
  show "(\<exists>r1. calls st' = calls st @ [(SearchReq upc, r1)] \<and> r = search_result rt r1 \<and>
             (\<forall>p. search_result rt r1 = Inr p \<longrightarrow> truthy rt p))
         \<or> (\<exists>r1 p1 r2. search_result rt r1 = Inr p1 \<and> \<not> truthy rt p1 \<and>
              calls st' = calls st @ [(SearchReq upc, r1),
                 (SearchReq (JStr (py '':relevance:freeText:'' @ py_str rt upc)), r2)] \<and>
              r = search_result rt r2)"
  proof (cases a)
    case (Inl e)
    with assms s1 have "r = a" "st' = st1"
      by (auto simp: search_or_fallback_def)
    with c1 a Inl show ?thesis by auto
  next
    case (Inr p1)
    show ?thesis
    proof (cases "truthy rt p1")
      case True
      with assms s1 Inr have "r = a" "st' = st1"
        by (auto simp: search_or_fallback_def)
      with c1 a Inr True show ?thesis by auto
    next
      case False
      with assms s1 Inr have
        s2: "search rt env (JStr (py '':relevance:freeText:'' @ py_str rt upc)) st1 = (r, st')"
        by (auto simp: search_or_fallback_def)
      from search_calls(1)[OF s2] c1 a Inr False show ?thesis by auto
    qed
  qed
qed

lemma pick_loop_calls:
  assumes "pick_loop rt env upc pdts st = (r, st')"
  shows "rows st' = rows st \<and>
    (\<exists>ds. calls st' = calls st @ ds \<and> length ds \<le> length pdts \<and>
       (\<forall>e\<in>set ds. step_no (fst e) = 2) \<and>
       (case r of
          Inl e \<Rightarrow> (\<forall>e\<in>set ds. \<not> detail_matches rt upc (snd e))
        | Inr pd \<Rightarrow>
            if truthy rt (fst pd)
            then (\<exists>pre c rp. ds = pre @ [(DetailReq c, rp)] \<and> detail_matches rt upc rp \<and>
                    dict_get (fst pd) (py ''code'') = Inr c \<and> detail_result rp = Inr (snd pd) \<and>
                    (\<forall>e\<in>set pre. \<not> detail_matches rt upc (snd e)))
            else (\<forall>e\<in>set ds. \<not> detail_matches rt upc (snd e))))"
  using assms
proof (induction pdts arbitrary: st)
  case Nil
  then show ?case by auto
next
  case (Cons pdt pdts)
  show ?case
  proof (cases "dict_get pdt (py ''code'')")
    case (Inl e)
    with Cons.prems show ?thesis by auto
  next
    case (Inr code)
    show ?thesis
    proof (cases "truthy rt code")
      case False
      with Cons.prems Inr have "pick_loop rt env upc pdts st = (r, st')" by simp
      from Cons.IH[OF this] show ?thesis
        by (elim conjE exE) (rule conjI, assumption, rule_tac x = ds in exI, simp)
    next
      case True
      obtain a st1 where d: "detail env code st = (a, st1)"
        by (cases "detail env code st")
      from detail_calls[OF d] obtain rp where
        c1: "calls st1 = calls st @ [(DetailReq code, rp)]" and a: "a = detail_result rp"
        and w1: "rows st1 = rows st" by blast
      show ?thesis
      proof (cases a)
        case (Inl e)
        with Cons.prems Inr True d have "r = Inl e" "st' = st1" by auto
        moreover have "detail_result rp = Inl e" using a Inl by simp
        ultimately show ?thesis using c1 w1
          by (intro conjI exI[of _ "[(DetailReq code, rp)]"]) (auto simp: detail_matches_def)
      next
        case dj: (Inr dj)
        have dr: "detail_result rp = Inr dj" using a dj by simp
        consider (skip) "\<not> truthy rt dj \<or> upc_matches rt dj upc = Inr False"
          | (err) e where "truthy rt dj" "upc_matches rt dj upc = Inl e"
          | (hit) "truthy rt dj" "upc_matches rt dj upc = Inr True"
          by (cases "upc_matches rt dj upc") auto
        then show ?thesis
        proof cases
          case skip
          with Cons.prems Inr True d dj have "pick_loop rt env upc pdts st1 = (r, st')"
            by (auto split: if_splits)
          from Cons.IH[OF this] obtain ds where
            ih: "rows st' = rows st1" "calls st' = calls st1 @ ds" "length ds \<le> length pdts"
              "\<forall>e\<in>set ds. step_no (fst e) = 2"
              "(case r of
                  Inl e \<Rightarrow> (\<forall>e\<in>set ds. \<not> detail_matches rt upc (snd e))
                | Inr pd \<Rightarrow>
                    if truthy rt (fst pd)
                    then (\<exists>pre c rp. ds = pre @ [(DetailReq c, rp)] \<and> detail_matches rt upc rp \<and>
                            dict_get (fst pd) (py ''code'') = Inr c \<and> detail_result rp = Inr (snd pd) \<and>
                            (\<forall>e\<in>set pre. \<not> detail_matches rt upc (snd e)))
                    else (\<forall>e\<in>set ds. \<not> detail_matches rt upc (snd e)))"
            by blast
          have nm: "\<not> detail_matches rt upc rp"
            using skip dr by (auto simp: detail_matches_def)
          have tail: "(case r of
                  Inl e \<Rightarrow> (\<forall>e\<in>set ((DetailReq code, rp) # ds). \<not> detail_matches rt upc (snd e))
                | Inr pd \<Rightarrow>
                    if truthy rt (fst pd)
                    then (\<exists>pre c rp'. (DetailReq code, rp) # ds = pre @ [(DetailReq c, rp')] \<and> detail_matches rt upc rp' \<and>
                            dict_get (fst pd) (py ''code'') = Inr c \<and> detail_result rp' = Inr (snd pd) \<and>
                            (\<forall>e\<in>set pre. \<not> detail_matches rt upc (snd e)))
                    else (\<forall>e\<in>set ((DetailReq code, rp) # ds). \<not> detail_matches rt upc (snd e)))"
          proof (cases r)
            case (Inl e)
            with ih(5) nm show ?thesis by simp
          next
            case (Inr pd)
            show ?thesis
            proof (cases "truthy rt (fst pd)")
              case False
              with ih(5) nm Inr show ?thesis by simp
            next
              case True
              with ih(5) Inr obtain pre c rp' where
                "ds = pre @ [(DetailReq c, rp')]" "detail_matches rt upc rp'"
                "dict_get (fst pd) (py ''code'') = Inr c" "detail_result rp' = Inr (snd pd)"
                "\<forall>e\<in>set pre. \<not> detail_matches rt upc (snd e)"
                by auto
              with nm have "(DetailReq code, rp) # ds = ((DetailReq code, rp) # pre) @ [(DetailReq c, rp')]
                  \<and> detail_matches rt upc rp' \<and> dict_get (fst pd) (py ''code'') = Inr c
                  \<and> detail_result rp' = Inr (snd pd)
                  \<and> (\<forall>e\<in>set ((DetailReq code, rp) # pre). \<not> detail_matches rt upc (snd e))"
                by simp
              then show ?thesis using Inr True by (simp del: append_Cons)
            qed
          qed
          show ?thesis
            using ih(1-4) c1 w1 tail
            by (intro conjI exI[of _ "(DetailReq code, rp) # ds"]) auto
        next
          case err
          with Cons.prems Inr True d dj have "r = Inl e" "st' = st1" by auto
          with c1 w1 dr err show ?thesis
            by (intro conjI exI[of _ "[(DetailReq code, rp)]"]) (auto simp: detail_matches_def)
        next
          case hit
          with Cons.prems Inr True d dj have "r = Inr (pdt, dj)" "st' = st1" by auto
          moreover have "truthy rt pdt"
            using Inr True by (cases pdt) auto
          moreover have "detail_matches rt upc rp"
            using hit dr by (simp add: detail_matches_def)
          ultimately show ?thesis using c1 w1 dr Inr
            by (intro conjI exI[of _ "[(DetailReq code, rp)]"]) auto
        qed
      qed
    qed
  qed
qed

lemma price_block_rows:
  assumes "price_block rt env cid upc picked dj st = (r, st')"
  shows "case r of Inl e \<Rightarrow> rows st' = rows st
         | Inr u \<Rightarrow> \<exists>row. rows st' = rows st @ [row] \<and> UPC row = upc"
  using assms unfolding price_block_def
  by (auto split: sum.splits prod.splits if_splits option.splits
      dest!: add_entry_calls(2) get_prices_calls(2) simp: remove_calls(2))

lemma price_block_calls:
  assumes "price_block rt env cid upc picked dj st = (r, st')"
  shows "calls st' = calls st \<and> (\<exists>e. r = Inl e)
       \<or> (\<exists>code evs. dict_get picked (py ''code'') = Inr code \<and> calls st' = calls st @ evs \<and>
            cart_calls_ok rt cid code evs)"
proof (cases "dict_get picked (py ''code'')")
  case (Inl e)
  with assms show ?thesis by (auto simp: price_block_def)
next
  case code: (Inr code)
  show ?thesis
  proof (cases "product_name rt picked dj")
    case (Inl e)
    with assms code show ?thesis by (auto simp: price_block_def)
  next
    case name: (Inr name)
    obtain a st1 where ad: "add_entry env cid code st = (a, st1)"
      by (cases "add_entry env cid code st")
    from add_entry_calls(1)[OF ad] obtain ra where
      c1: "calls st1 = calls st @ [(AddEntryReq cid code, ra)]" and a: "add_entry_result ra = a"
      by auto
    show ?thesis
    proof (cases "a = Inr True")
      case False
      with assms code name ad have "calls st' = calls st1"
        by (cases a) (auto simp: price_block_def)
      with c1 a False code show ?thesis
        by (intro disjI2 exI[of _ code] exI[of _ "[(AddEntryReq cid code, ra)]"])
           (simp add: cart_calls_ok_def)
    next
      case True
      obtain g1 st2 where g1: "get_prices rt env cid st1 = (g1, st2)"
        by (cases "get_prices rt env cid st1")
      from get_prices_calls(1)[OF g1] obtain p1 where
        c2: "calls st2 = calls st1 @ [(GetPricesReq cid, p1)]" and r1: "get_prices_result rt p1 = g1"
        by auto
      have "\<exists>ps. calls st' = calls st1 @ ps \<and> reads_ok rt cid ps"
      proof (cases g1)
        case (Inl e)
        with assms code name ad True g1 have "st' = st2"
          by (auto simp: price_block_def)
        with c2 r1 Inl show ?thesis
          by (intro exI[of _ "[(GetPricesReq cid, p1)]"]) (simp add: reads_ok_def)
      next
        case (Inr got1)
        show ?thesis
        proof (cases got1)
          case (Some g)
          with assms code name ad True g1 Inr obtain stx where
            "st' = remove env cid stx" "calls stx = calls st2"
            by (auto simp: price_block_def split: prod.splits)
          with remove_calls(1)[of env cid stx] obtain rr where
            "calls st' = calls st2 @ [(RemoveReq cid, rr)]" by auto
          with c2 r1 Inr Some show ?thesis
            by (intro exI[of _ "[(GetPricesReq cid, p1), (RemoveReq cid, rr)]"])
               (simp add: reads_ok_def)
        next
          case None
          obtain g2 st3 where g2: "get_prices rt env cid st2 = (g2, st3)"
            by (cases "get_prices rt env cid st2")
          from get_prices_calls(1)[OF g2] obtain p2 where
            c3: "calls st3 = calls st2 @ [(GetPricesReq cid, p2)]" and r2: "get_prices_result rt p2 = g2"
            by auto
          show ?thesis
          proof (cases g2)
            case (Inl e)
            with assms code name ad True g1 Inr None g2 have "st' = st3"
              by (auto simp: price_block_def)
            with c2 c3 r1 r2 Inr None Inl show ?thesis
              by (intro exI[of _ "[(GetPricesReq cid, p1), (GetPricesReq cid, p2)]"])
                 (simp add: reads_ok_def)
          next
            case got: (Inr got)
            with assms code name ad True g1 Inr None g2 obtain stx where
              "st' = remove env cid stx" "calls stx = calls st3"
              by (auto simp: price_block_def split: prod.splits option.splits)
            with remove_calls(1)[of env cid stx] obtain rr where
              "calls st' = calls st3 @ [(RemoveReq cid, rr)]" by auto
            with c2 c3 r1 r2 Inr None got show ?thesis
              by (intro exI[of _ "[(GetPricesReq cid, p1), (GetPricesReq cid, p2), (RemoveReq cid, rr)]"])
                 (simp add: reads_ok_def)
          qed
        qed
      qed
      then obtain ps where "calls st' = calls st1 @ ps" "reads_ok rt cid ps" by blast
      with c1 a True code show ?thesis
        by (intro disjI2 exI[of _ code] exI[of _ "(AddEntryReq cid code, ra) # ps"])
           (simp add: cart_calls_ok_def)
    qed
  qed
qed

lemma search_or_fallback_ok:
  assumes "search_or_fallback rt env upc st = (r, st')"
  shows "\<exists>ss. calls st' = calls st @ ss \<and> searches_ok rt upc ss \<and> ss \<noteq> [] \<and>
           r = search_result rt (snd (last ss))"
  using search_or_fallback_calls(2)[OF assms]
proof (elim disjE exE conjE)
  fix r1
  assume "calls st' = calls st @ [(SearchReq upc, r1)]" "r = search_result rt r1"
    "\<forall>p. search_result rt r1 = Inr p \<longrightarrow> truthy rt p"
  then show ?thesis
    by (intro exI[of _ "[(SearchReq upc, r1)]"]) (auto simp: searches_ok_def split: sum.splits)
next
  fix r1 p1 r2
  assume "search_result rt r1 = Inr p1" "\<not> truthy rt p1"
    "calls st' = calls st @ [(SearchReq upc, r1),
        (SearchReq (JStr (py '':relevance:freeText:'' @ py_str rt upc)), r2)]"
    "r = search_result rt r2"
  then show ?thesis
    by (intro exI[of _ "[(SearchReq upc, r1),
        (SearchReq (JStr (py '':relevance:freeText:'' @ py_str rt upc)), r2)]"])
       (auto simp: searches_ok_def)
qed

lemma process_upc_try_calls:
  assumes "process_upc_try rt env cid upc st = (r, st')"
  shows "\<exists>ss ds evs. calls st' = calls st @ ss @ ds @ evs \<and> searches_ok rt upc ss \<and>
           (\<forall>e\<in>set ds. step_no (fst e) = 2) \<and>
           length ds \<le> length (candidates rt (snd (last ss))) \<and>
           ((\<forall>e\<in>set ds. \<not> detail_matches rt upc (snd e)) \<and> evs = []
            \<or> (\<exists>pre c rp. ds = pre @ [(DetailReq c, rp)] \<and> detail_matches rt upc rp \<and>
                 (\<forall>e\<in>set pre. \<not> detail_matches rt upc (snd e)) \<and>
                 (evs = [] \<and> (\<exists>e. r = Inl e) \<or> cart_calls_ok rt cid c evs)))"
proof -
  obtain a st1 where sf: "search_or_fallback rt env upc st = (a, st1)"
    by (cases "search_or_fallback rt env upc st")
  from search_or_fallback_ok[OF sf] obtain ss where
    ss: "calls st1 = calls st @ ss" "searches_ok rt upc ss" "ss \<noteq> []"
      "a = search_result rt (snd (last ss))" by blast
  have stop: ?thesis if "calls st' = calls st1"
    using that ss by (intro exI[of _ ss] exI[of _ "[]"]) simp
  show ?thesis
  proof (cases a)
    case (Inl e)
    with assms sf have "st' = st1" by (auto simp: process_upc_try_def)
    then show ?thesis by (intro stop) simp
  next
    case (Inr products)
    show ?thesis
    proof (cases "truthy rt products")
      case False
      with assms sf Inr have "calls st' = calls st1" by (auto simp: process_upc_try_def)
      then show ?thesis by (rule stop)
    next
      case True
      show ?thesis
      proof (cases "py_iter products")
        case (Inl e)
        with assms sf Inr True have "st' = st1" by (auto simp: process_upc_try_def)
        then show ?thesis by (intro stop) simp
      next
        case pdts: (Inr pdts)
        have "search_result rt (snd (last ss)) = Inr products"
          using ss(4) Inr by simp
        then have cand: "candidates rt (snd (last ss)) = pdts"
          using pdts by (simp add: candidates_def)
        obtain b st2 where pl: "pick_loop rt env upc pdts st1 = (b, st2)"
          by (cases "pick_loop rt env upc pdts st1")
        from pick_loop_calls[OF pl] obtain ds where
          ds: "calls st2 = calls st1 @ ds" "length ds \<le> length pdts"
            "\<forall>e\<in>set ds. step_no (fst e) = 2"
            "(case b of
                Inl e \<Rightarrow> (\<forall>e\<in>set ds. \<not> detail_matches rt upc (snd e))
              | Inr pd \<Rightarrow>
                  if truthy rt (fst pd)
                  then (\<exists>pre c rp. ds = pre @ [(DetailReq c, rp)] \<and> detail_matches rt upc rp \<and>
                          dict_get (fst pd) (py ''code'') = Inr c \<and> detail_result rp = Inr (snd pd) \<and>
                          (\<forall>e\<in>set pre. \<not> detail_matches rt upc (snd e)))
                  else (\<forall>e\<in>set ds. \<not> detail_matches rt upc (snd e)))"
          by blast
        have nomatch: ?thesis
          if "calls st' = calls st2" "\<forall>e\<in>set ds. \<not> detail_matches rt upc (snd e)"
          using that ss ds(1-3) cand
          by (intro exI[of _ ss] exI[of _ ds] exI[of _ "[]"]) simp
        show ?thesis
        proof (cases b)
          case (Inl e)
          with assms sf Inr True pdts pl have "st' = st2"
            by (auto simp: process_upc_try_def)
          with ds(4) Inl show ?thesis by (intro nomatch) simp_all
        next
          case pd: (Inr pd)
          obtain picked dj where pdeq: "pd = (picked, dj)" by (cases pd)
          show ?thesis
          proof (cases "truthy rt picked")
            case False
            with assms sf Inr True pdts pl pd pdeq have "calls st' = calls st2"
              by (auto simp: process_upc_try_def)
            with ds(4) pd pdeq False show ?thesis by (intro nomatch) simp_all
          next
            case tp: True
            with ds(4) pd pdeq obtain pre c rp where
              m: "ds = pre @ [(DetailReq c, rp)]" "detail_matches rt upc rp"
                "dict_get picked (py ''code'') = Inr c"
                "\<forall>e\<in>set pre. \<not> detail_matches rt upc (snd e)"
              by auto
            from assms sf Inr True pdts pl pd pdeq tp have
              pb: "price_block rt env cid upc picked dj st2 = (r, st')"
              by (auto simp: process_upc_try_def)
            from price_block_calls[OF pb] m(3) obtain evs where
              evs: "calls st' = calls st2 @ evs"
                "evs = [] \<and> (\<exists>e. r = Inl e) \<or> cart_calls_ok rt cid c evs"
              by auto
            show ?thesis
              using ss ds(1-3) cand m evs
              by (intro exI[of _ ss] exI[of _ ds] exI[of _ evs]) auto
          qed
        qed
      qed
    qed
  qed
qed

lemma pick_loop_rows:
  "pick_loop rt env upc pdts st = (r, st') \<Longrightarrow> rows st' = rows st"
  by (drule pick_loop_calls) simp

lemma process_upc_try_rows:
  assumes "process_upc_try rt env cid upc st = (r, st')"
  shows "case r of Inl e \<Rightarrow> rows st' = rows st
         | Inr u \<Rightarrow> \<exists>row. rows st' = rows st @ [row] \<and> UPC row = upc"
proof -
  obtain a st1 where sf: "search_or_fallback rt env upc st = (a, st1)"
    by (cases "search_or_fallback rt env upc st")
  note r1 = search_or_fallback_calls(1)[OF sf]
  show ?thesis
  proof (cases a)
    case (Inl e)
    with assms sf r1 show ?thesis by (auto simp: process_upc_try_def)
  next
    case (Inr products)
    show ?thesis
    proof (cases "truthy rt products \<and> (\<exists>pdts. py_iter products = Inr pdts)")
      case False
      show ?thesis
      proof (cases "truthy rt products")
        case f: False
        with assms sf r1 Inr show ?thesis
          by (auto simp: process_upc_try_def)
      next
        case True
        with False obtain e where "py_iter products = Inl e"
          by (cases "py_iter products") auto
        with True assms sf r1 Inr show ?thesis
          by (auto simp: process_upc_try_def)
      qed
    next
      case True
      then obtain pdts where t: "truthy rt products" "py_iter products = Inr pdts" by blast
      obtain b st2 where pl: "pick_loop rt env upc pdts st1 = (b, st2)"
        by (cases "pick_loop rt env upc pdts st1")
      note r2 = pick_loop_rows[OF pl]
      show ?thesis
      proof (cases b)
        case (Inl e)
        with assms sf Inr t pl r1 r2 show ?thesis by (auto simp: process_upc_try_def)
      next
        case pd: (Inr pd)
        obtain picked dj where pdeq: "pd = (picked, dj)" by (cases pd)
        show ?thesis
        proof (cases "truthy rt picked")
          case False
          with assms sf Inr t pl pd pdeq r1 r2 show ?thesis
            by (auto simp: process_upc_try_def)
        next
          case True
          with assms sf Inr t pl pd pdeq have
            "price_block rt env cid upc picked dj st2 = (r, st')"
            by (auto simp: process_upc_try_def)
          from price_block_rows[OF this] r1 r2 show ?thesis
            by (auto split: sum.splits)
        qed
      qed
    qed
  qed
qed

lemma process_upc_rows:
  "\<exists>row. rows (process_upc rt env cid upc st) = rows st @ [row] \<and> UPC row = upc"
proof -
  obtain r st' where t: "process_upc_try rt env cid upc st = (r, st')"
    by (cases "process_upc_try rt env cid upc st")
  from process_upc_try_rows[OF t] t show ?thesis
    by (cases r) (auto simp: process_upc_def)
qed

lemma process_upc_calls:
  "process_upc_try rt env cid upc st = (r, st') \<Longrightarrow>
     calls (process_upc rt env cid upc st) = calls st'"
  by (cases r) (simp_all add: process_upc_def)

lemma item_calls_shape:
  "calls (process_upc rt env cid upc st) = calls st @ item_calls rt env cid upc st
   \<and> item_shape rt cid upc (item_calls rt env cid upc st)"
proof -
  obtain r st' where t: "process_upc_try rt env cid upc st = (r, st')"
    by (cases "process_upc_try rt env cid upc st")
  from process_upc_try_calls[OF t] obtain ss ds evs where
    c: "calls st' = calls st @ ss @ ds @ evs" and
    sh: "searches_ok rt upc ss" "\<forall>e\<in>set ds. step_no (fst e) = 2"
      "length ds \<le> length (candidates rt (snd (last ss)))"
      "(\<forall>e\<in>set ds. \<not> detail_matches rt upc (snd e)) \<and> evs = []
       \<or> (\<exists>pre c rp. ds = pre @ [(DetailReq c, rp)] \<and> detail_matches rt upc rp \<and>
            (\<forall>e\<in>set pre. \<not> detail_matches rt upc (snd e)) \<and>
            (evs = [] \<and> (\<exists>e. r = Inl e) \<or> cart_calls_ok rt cid c evs))"
    by blast
  have ic: "item_calls rt env cid upc st = ss @ ds @ evs"
    using c process_upc_calls[OF t] by (simp add: item_calls_def)
  have "item_shape rt cid upc (ss @ ds @ evs)"
    unfolding item_shape_def using sh
    by (intro exI[of _ ss] exI[of _ ds] exI[of _ evs]) blast
  with ic c process_upc_calls[OF t] show ?thesis by simp
qed

lemma searches_ok_steps:
  assumes "searches_ok rt upc ss"
  shows "ss \<noteq> []" "fst (hd ss) = SearchReq upc" "\<forall>e\<in>set ss. step_no (fst e) = 1"
    "length ss \<le> 2"
  using assms by (auto simp: searches_ok_def split: list.splits)

lemma reads_ok_steps:
  assumes "reads_ok rt cid ps"
  shows "sorted (map (\<lambda>e. step_no (fst e)) ps)"
    and "\<forall>e\<in>set ps. 4 \<le> step_no (fst e)"
    and "count_step 1 ps = 0" "count_step 2 ps = 0" "count_step 3 ps = 0"
    and "count_step 4 ps \<le> 2" "count_step 5 ps \<le> 1"
    and "ps \<noteq> [] \<and> step_no (fst (hd ps)) = 4"
  using assms
  by (auto simp: reads_ok_def count_step_def map_eq_Cons_conv
      split: list.splits sum.splits option.splits)

lemma cart_calls_ok_steps:
  assumes "cart_calls_ok rt cid c evs"
  shows "sorted (map (\<lambda>e. step_no (fst e)) evs)"
    and "\<forall>e\<in>set evs. 3 \<le> step_no (fst e)"
    and "count_step 1 evs = 0" "count_step 2 evs = 0"
    and "count_step 3 evs = 1" "count_step 4 evs \<le> 2" "count_step 5 evs \<le> 1"
    and "fst (hd evs) = AddEntryReq cid c \<and> evs \<noteq> []"
    and "\<forall>e\<in>set evs. step_no (fst e) = 3 \<longrightarrow> fst e = AddEntryReq cid c"
    and "\<forall>e\<in>set evs. step_no (fst e) = 4 \<longrightarrow>
           (\<exists>a\<in>set evs. step_no (fst a) = 3 \<and> add_entry_result (snd a) = Inr True)"
proof -
  from assms obtain e ps where
    e: "evs = e # ps" "fst e = AddEntryReq cid c"
      "if add_entry_result (snd e) = Inr True then reads_ok rt cid ps else ps = []"
    by (auto simp: cart_calls_ok_def split: list.splits)
  show "sorted (map (\<lambda>e. step_no (fst e)) evs)"
    using e reads_ok_steps(1,2)[of rt cid ps] by (fastforce split: if_splits)
  show "\<forall>e\<in>set evs. 3 \<le> step_no (fst e)"
    using e reads_ok_steps(2)[of rt cid ps] by (fastforce split: if_splits)
  show "count_step 1 evs = 0" "count_step 2 evs = 0" "count_step 3 evs = 1"
    "count_step 4 evs \<le> 2" "count_step 5 evs \<le> 1"
    using e reads_ok_steps(3-7)[of rt cid ps]
    by (auto simp: count_step_def split: if_splits)
  show "fst (hd evs) = AddEntryReq cid c \<and> evs \<noteq> []" using e by simp
  show "\<forall>e\<in>set evs. step_no (fst e) = 3 \<longrightarrow> fst e = AddEntryReq cid c"
    using e reads_ok_steps(2)[of rt cid ps] by (auto split: if_splits)
  show "\<forall>e\<in>set evs. step_no (fst e) = 4 \<longrightarrow>
           (\<exists>a\<in>set evs. step_no (fst a) = 3 \<and> add_entry_result (snd a) = Inr True)"
    using e by (auto split: if_splits)
qed

lemma count_step_append [simp]:
  "count_step n (xs @ ys) = count_step n xs + count_step n ys"
  by (simp add: count_step_def)

lemma count_step_all:
  "\<forall>e\<in>set xs. step_no (fst e) = m \<Longrightarrow> count_step n xs = (if n = m then length xs else 0)"
  by (induction xs) (auto simp: count_step_def)




lemma item_shape_counts:
  assumes "item_shape rt cid upc xs"
  shows "count_step 1 xs \<le> 2" "1 \<le> count_step 1 xs"
    and "count_step 3 xs \<le> 1" "count_step 4 xs \<le> 2" "count_step 5 xs \<le> 1"
    and "(\<forall>e\<in>set xs. step_no (fst e) = 1 \<longrightarrow> length (candidates rt (snd e)) \<le> n)
           \<longrightarrow> count_step 2 xs \<le> n"
proof -
  from assms obtain ss ds evs where
    xs: "xs = ss @ ds @ evs" and ss: "searches_ok rt upc ss" and
    ds: "\<forall>e\<in>set ds. step_no (fst e) = 2" and
    len: "length ds \<le> length (candidates rt (snd (last ss)))" and
    alt: "(\<forall>e\<in>set ds. \<not> detail_matches rt upc (snd e)) \<and> evs = []
         \<or> (\<exists>pre c rp. ds = pre @ [(DetailReq c, rp)] \<and> detail_matches rt upc rp \<and>
              (\<forall>e\<in>set pre. \<not> detail_matches rt upc (snd e)) \<and>
              (evs = [] \<or> cart_calls_ok rt cid c evs))"
    unfolding item_shape_def by blast
  note s = searches_ok_steps[OF ss]
  have ev: "evs = [] \<or> (\<exists>c. cart_calls_ok rt cid c evs)" using alt by blast
  have c: "count_step 1 evs = 0" "count_step 2 evs = 0" "count_step 3 evs \<le> 1"
    "count_step 4 evs \<le> 2" "count_step 5 evs \<le> 1"
    using ev cart_calls_ok_steps(3-7) by (fastforce simp: count_step_def)+
  note cs = count_step_all[OF s(3)] count_step_all[OF ds]
  show "count_step 1 xs \<le> 2" "1 \<le> count_step 1 xs" "count_step 3 xs \<le> 1"
    "count_step 4 xs \<le> 2" "count_step 5 xs \<le> 1"
    using c s(1,4) by (simp_all add: xs cs) (cases ss, simp_all)
  show "(\<forall>e\<in>set xs. step_no (fst e) = 1 \<longrightarrow> length (candidates rt (snd e)) \<le> n)
           \<longrightarrow> count_step 2 xs \<le> n"
  proof
    assume a: "\<forall>e\<in>set xs. step_no (fst e) = 1 \<longrightarrow> length (candidates rt (snd e)) \<le> n"
    have "last ss \<in> set xs" "step_no (fst (last ss)) = 1"
      using s(1,3) xs by auto
    with a have "length (candidates rt (snd (last ss))) \<le> n" by blast
    with len c(2) show "count_step 2 xs \<le> n" by (simp add: xs cs)
  qed
qed

section \<open>The order and the number of the calls\<close>



text \<open>
  C8, amended. One iteration makes at most 2 search calls, 1 cart add, 2 price reads
  and 1 entry removal. It makes at most one detail fetch for each candidate of the
  search reply: at most \<open>n\<close> of them when the search replies hold at most \<open>n\<close>
  candidates, so at most 24 when the platform keeps to the page size asked for.
\<close>

theorem item_call_bounds:
  assumes "evs = item_calls rt env cart_id upc st"
  shows "count_step 1 evs \<le> 2 \<and> count_step 3 evs \<le> 1 \<and> count_step 4 evs \<le> 2
    \<and> count_step 5 evs \<le> 1
    \<and> ((\<forall>e\<in>set evs. step_no (fst e) = 1 \<longrightarrow> length (candidates rt (snd e)) \<le> n)
         \<longrightarrow> count_step 2 evs \<le> n)"
proof -
  have sh: "item_shape rt cart_id upc evs"
    using item_calls_shape[of rt env cart_id upc st] assms by simp
  show ?thesis
    using item_shape_counts(1,3,4,5)[OF sh] item_shape_counts(6)[OF sh, of n]
    by blast
qed

theorem item_call_bounds_witness:
  "count_step 2
     (item_calls dec_rt script_env (JStr (py ''g1'')) (JStr (py ''7501''))
        (ex_start [ex_search, ok_json ex_detail, Response True None,
                   Response True None, Response True None, Response True None])) \<le> 24"
proof -
  have h: "\<forall>e\<in>set (item_calls dec_rt script_env (JStr (py ''g1'')) (JStr (py ''7501''))
        (ex_start [ex_search, ok_json ex_detail, Response True None,
                   Response True None, Response True None, Response True None])).
          step_no (fst e) = 1 \<longrightarrow> length (candidates dec_rt (snd e)) \<le> 24"
    by code_simp
  show ?thesis
    using item_call_bounds[OF refl, of dec_rt script_env "JStr (py ''g1'')" "JStr (py ''7501'')"
        "ex_start [ex_search, ok_json ex_detail, Response True None,
                   Response True None, Response True None, Response True None]" 24] h
    by blast
qed

text \<open>
  The script does not cut the list of candidates: for a search reply with 25 products,
  none of which matches, it fetches 25 details.
\<close>

theorem detail_calls_counterexample:
  "count_step 2
     (item_calls dec_rt script_env (JStr (py ''g1'')) (JStr (py ''7501''))
        (ex_start (ok_json (JObj [(py ''products'', JArr (replicate 25 ex_product))])
                   # replicate 25 (ok_json ex_other_detail)))) = 25"
  by code_simp

section \<open>The rows of a run\<close>

lemma create_from_list_rows:
  "create_from_list rt env g st = (r, st') \<Longrightarrow> rows st' = rows st"
  by (auto simp: create_from_list_def split: prod.splits reply.splits dest: request_calls(2))

lemma create_from_current_rows:
  "create_from_current rt env g st = (r, st') \<Longrightarrow> rows st' = rows st"
  by (auto simp: create_from_current_def split: prod.splits reply.splits dest: request_calls(2))

lemma create_rows:
  assumes "create rt env st = (r, st')"
  shows "rows st' = rows st"
proof -
  obtain rp st1 where rq: "request env CartCreateReq st = (rp, st1)"
    by (cases "request env CartCreateReq st")
  note r1 = request_calls(2)[OF rq]
  show ?thesis
    using assms rq r1
    by (auto simp: create_def split: reply.splits if_splits sum.splits prod.splits option.splits
        dest!: create_from_list_rows create_from_current_rows)
qed

lemma scrape_loop_append:
  "scrape_loop rt env cid (xs @ ys) st = scrape_loop rt env cid ys (scrape_loop rt env cid xs st)"
  by (induction xs arbitrary: st) simp_all

lemma scrape_loop_new_rows:
  "\<exists>new. rows (scrape_loop rt env cid upcs st) = rows st @ new \<and> map UPC new = upcs"
proof (induction upcs arbitrary: st)
  case Nil
  then show ?case by simp
next
  case (Cons u us)
  obtain row where r: "rows (process_upc rt env cid u st) = rows st @ [row]" "UPC row = u"
    using process_upc_rows by blast
  from Cons.IH[of "process_upc rt env cid u st"] obtain new where
    "rows (scrape_loop rt env cid us (process_upc rt env cid u st))
       = rows (process_upc rt env cid u st) @ new" "map UPC new = us"
    by blast
  with r show ?case by (intro exI[of _ "row # new"]) simp
qed

text \<open>
  C1. A run that completes returns one row for each identifier of the input list, in the
  order of the list, the row at each position holding the identifier at that position.
  Every iteration of the loop, whatever its outcome (nothing found by the searches, no
  candidate matching, cart add refused, price read failing, prices read, or an
  exception), appends exactly one row, and that row holds the identifier of the
  iteration.
\<close>

theorem main_one_row_per_upc:
  "(fst (main rt env upcs w) = Inr rs \<longrightarrow> length rs = length upcs \<and> map UPC rs = upcs)
   \<and> (\<exists>row. rows (process_upc rt env cart_id upc st) = rows st @ [row] \<and> UPC row = upc)"
proof
  show "fst (main rt env upcs w) = Inr rs \<longrightarrow> length rs = length upcs \<and> map UPC rs = upcs"
  proof
    assume m: "fst (main rt env upcs w) = Inr rs"
    obtain r st1 where c: "create rt env \<lparr>world = w, calls = [], rows = []\<rparr> = (r, st1)"
      by (cases "create rt env \<lparr>world = w, calls = [], rows = []\<rparr>")
    from create_rows[OF c] have e: "rows st1 = []" by simp
    from m c obtain cid where "rs = rows (scrape_loop rt env cid upcs st1)"
      by (auto simp: main_def Let_def split: sum.splits if_splits)
    with scrape_loop_new_rows[of rt env cid upcs st1] e have "map UPC rs = upcs" by auto
    then show "length rs = length upcs \<and> map UPC rs = upcs"
      using length_map[of UPC rs] by simp
  qed
  show "\<exists>row. rows (process_upc rt env cart_id upc st) = rows st @ [row] \<and> UPC row = upc"
    by (rule process_upc_rows)
qed

theorem main_one_row_per_upc_witness:
  "fst (main dec_rt script_env [JStr (py ''7501''), JStr (py ''999'')]
          [ok_json (JObj [(py ''guid'', JStr (py ''g1''))]), ex_search, ok_json ex_other_detail])
     = Inr [\<lparr>UPC = JStr (py ''7501''), precio_sin_promocion = py ''-'', precio_con_promocion = py ''-'',
              nombre_del_producto = py ''No encontrado'',
              fecha_scrapping = py ''2024-01-01 00:00:00''\<rparr>,
            \<lparr>UPC = JStr (py ''999''), precio_sin_promocion = py ''-'', precio_con_promocion = py ''-'',
              nombre_del_producto = py ''Error general: Timeout 15000ms exceeded'',
              fecha_scrapping = py ''2024-01-01 00:00:00''\<rparr>]
   \<and> map UPC [\<lparr>UPC = JStr (py ''7501''), precio_sin_promocion = py ''-'', precio_con_promocion = py ''-'',
              nombre_del_producto = py ''No encontrado'',
              fecha_scrapping = py ''2024-01-01 00:00:00''\<rparr>,
            \<lparr>UPC = JStr (py ''999''), precio_sin_promocion = py ''-'', precio_con_promocion = py ''-'',
              nombre_del_producto = py ''Error general: Timeout 15000ms exceeded'',
              fecha_scrapping = py ''2024-01-01 00:00:00''\<rparr>]
     = [JStr (py ''7501''), JStr (py ''999'') :: dec json]"
proof -
  have h: "fst (main dec_rt script_env [JStr (py ''7501''), JStr (py ''999'')]
          [ok_json (JObj [(py ''guid'', JStr (py ''g1''))]), ex_search, ok_json ex_other_detail])
     = Inr [\<lparr>UPC = JStr (py ''7501''), precio_sin_promocion = py ''-'', precio_con_promocion = py ''-'',
              nombre_del_producto = py ''No encontrado'',
              fecha_scrapping = py ''2024-01-01 00:00:00''\<rparr>,
            \<lparr>UPC = JStr (py ''999''), precio_sin_promocion = py ''-'', precio_con_promocion = py ''-'',
              nombre_del_producto = py ''Error general: Timeout 15000ms exceeded'',
              fecha_scrapping = py ''2024-01-01 00:00:00''\<rparr>]"
    by code_simp
  from main_one_row_per_upc[of dec_rt script_env "[JStr (py ''7501''), JStr (py ''999'')]"
      "[ok_json (JObj [(py ''guid'', JStr (py ''g1''))]), ex_search, ok_json ex_other_detail]"] h
  show ?thesis by blast
qed

text \<open>
  C5. When the processing of an identifier raises an exception, the rows written for the
  identifiers before it are kept, one row is added for it, with \<^verbatim>\<open>-\<close> in both price
  columns and \<^verbatim>\<open>Error general:\<close> followed by the message of the exception in the
  name column, and the loop goes on: every remaining identifier gets its row. Once the
  cart has been created, \<^verbatim>\<open>main\<close> returns the rows, one for each identifier: no
  failure of an item ends the run.
\<close>

theorem item_error_recorded_run_continues:
  "(process_upc_try rt env cart_id upc (scrape_loop rt env cart_id pre st) = (Inl e, st1) \<longrightarrow>
      (\<exists>rest. rows (scrape_loop rt env cart_id (pre @ upc # post) st) =
                 rows (scrape_loop rt env cart_id pre st) @
                 \<lparr>UPC = upc, precio_sin_promocion = py ''-'', precio_con_promocion = py ''-'',
                   nombre_del_producto = (py ''Error general: '') @ exn_str e,
                   fecha_scrapping = now_str env (world st1)\<rparr> # rest
               \<and> map UPC rest = post))
   \<and> (fst (create rt env \<lparr>world = w, calls = [], rows = []\<rparr>) = Inr cid \<and> truthy rt cid \<longrightarrow>
        fst (main rt env upcs w) = Inr (rows (snd (main rt env upcs w)))
        \<and> length (rows (snd (main rt env upcs w))) = length upcs)"
proof (intro conjI impI)
  assume t: "process_upc_try rt env cart_id upc (scrape_loop rt env cart_id pre st) = (Inl e, st1)"
  let ?s0 = "scrape_loop rt env cart_id pre st"
  let ?row = "\<lparr>UPC = upc, precio_sin_promocion = py ''-'', precio_con_promocion = py ''-'',
                   nombre_del_producto = (py ''Error general: '') @ exn_str e,
                   fecha_scrapping = now_str env (world st1)\<rparr>"
  from process_upc_try_rows[OF t] have r1: "rows st1 = rows ?s0" by simp
  have p: "rows (process_upc rt env cart_id upc ?s0) = rows ?s0 @ [?row]"
    using t r1 by (simp add: process_upc_def)
  obtain rest where
    "rows (scrape_loop rt env cart_id post (process_upc rt env cart_id upc ?s0))
       = rows (process_upc rt env cart_id upc ?s0) @ rest" "map UPC rest = post"
    using scrape_loop_new_rows by blast
  with p show "\<exists>rest. rows (scrape_loop rt env cart_id (pre @ upc # post) st) =
                 rows ?s0 @ ?row # rest \<and> map UPC rest = post"
    by (intro exI[of _ rest]) (simp add: scrape_loop_append)
next
  assume a: "fst (create rt env \<lparr>world = w, calls = [], rows = []\<rparr>) = Inr cid \<and> truthy rt cid"
  obtain st1 where c: "create rt env \<lparr>world = w, calls = [], rows = []\<rparr> = (Inr cid, st1)"
    using a by (cases "create rt env \<lparr>world = w, calls = [], rows = []\<rparr>") auto
  from create_rows[OF c] have e: "rows st1 = []" by simp
  have m: "main rt env upcs w =
      (Inr (rows (scrape_loop rt env cid upcs st1)), scrape_loop rt env cid upcs st1)"
    using a c by (simp add: main_def Let_def)
  then show "fst (main rt env upcs w) = Inr (rows (snd (main rt env upcs w)))" by simp
  from scrape_loop_new_rows[of rt env cid upcs st1] e obtain new where
    "rows (scrape_loop rt env cid upcs st1) = new" "map UPC new = upcs" by auto
  with m show "length (rows (snd (main rt env upcs w))) = length upcs"
    using length_map[of UPC new] by simp
qed

theorem item_error_recorded_run_continues_witness:
  "(\<exists>rest. rows (scrape_loop dec_rt script_env (JStr (py ''g1'')) ([] @ JStr (py ''7501'') # [JStr (py ''999'')])
                  (ex_start [Raises (py ''net::ERR_FAILED''), ok_json (JObj []), ok_json (JObj [])])) =
              rows (scrape_loop dec_rt script_env (JStr (py ''g1'')) []
                  (ex_start [Raises (py ''net::ERR_FAILED''), ok_json (JObj []), ok_json (JObj [])])) @
              \<lparr>UPC = JStr (py ''7501''), precio_sin_promocion = py ''-'', precio_con_promocion = py ''-'',
                nombre_del_producto = (py ''Error general: '') @ exn_str (RequestError (py ''net::ERR_FAILED'')),
                fecha_scrapping = now_str script_env
                   (world (\<lparr>world = [ok_json (JObj []), ok_json (JObj [])],
                           calls = [(SearchReq (JStr (py ''7501'')), Raises (py ''net::ERR_FAILED''))],
                           rows = []\<rparr> :: (dec reply list, dec) state))\<rparr> # rest
            \<and> map UPC rest = [JStr (py ''999'')])
   \<and> length (rows (snd (main dec_rt script_env [JStr (py ''7501''), JStr (py ''999'')]
         [ok_json (JObj [(py ''guid'', JStr (py ''g1''))]), Raises (py ''net::ERR_FAILED'')])))
       = length [JStr (py ''7501''), JStr (py ''999'') :: dec json]"
proof -
  have h1: "process_upc_try dec_rt script_env (JStr (py ''g1'')) (JStr (py ''7501''))
       (scrape_loop dec_rt script_env (JStr (py ''g1'')) []
          (ex_start [Raises (py ''net::ERR_FAILED''), ok_json (JObj []), ok_json (JObj [])]))
     = (Inl (RequestError (py ''net::ERR_FAILED'')),
        \<lparr>world = [ok_json (JObj []), ok_json (JObj [])],
          calls = [(SearchReq (JStr (py ''7501'')), Raises (py ''net::ERR_FAILED''))],
          rows = []\<rparr>)"
    by code_simp
  have h2: "fst (create dec_rt script_env
        \<lparr>world = [ok_json (JObj [(py ''guid'', JStr (py ''g1''))]), Raises (py ''net::ERR_FAILED'')],
          calls = [], rows = []\<rparr>) = Inr (JStr (py ''g1'')) \<and> truthy dec_rt (JStr (py ''g1''))"
    by code_simp
  note t = item_error_recorded_run_continues[of dec_rt script_env "JStr (py ''g1'')" "JStr (py ''7501'')" "[]"
      "ex_start [Raises (py ''net::ERR_FAILED''), ok_json (JObj []), ok_json (JObj [])]"
      "RequestError (py ''net::ERR_FAILED'')"
      "\<lparr>world = [ok_json (JObj []), ok_json (JObj [])],
          calls = [(SearchReq (JStr (py ''7501'')), Raises (py ''net::ERR_FAILED''))],
          rows = []\<rparr>"
      "[JStr (py ''999'')]"
      "[ok_json (JObj [(py ''guid'', JStr (py ''g1''))]), Raises (py ''net::ERR_FAILED'')]"
      "JStr (py ''g1'')" "[JStr (py ''7501''), JStr (py ''999'')]"]
  note a = t[THEN conjunct1, THEN mp, OF h1]
  note b = t[THEN conjunct2, THEN mp, OF h2, THEN conjunct2]
  show ?thesis by (rule conjI[OF a b])
qed

section \<open>The search fallback and the price-read retry\<close>

lemma search_exact:
  "send env (world st) (SearchReq q) = (r, w) \<Longrightarrow>
     search rt env q st =
       (search_result rt r, st\<lparr>world := w, calls := calls st @ [(SearchReq q, r)]\<rparr>)"
  by (simp add: search_def request_def)

lemma process_upc_try_after_search:
  assumes sf: "search_or_fallback rt env upc st = (a, st1)"
    and t: "process_upc_try rt env cid upc st = (r, st')"
  shows "\<exists>more. calls st' = calls st1 @ more \<and> (\<forall>e\<in>set more. 2 \<le> step_no (fst e)) \<and>
           (r = Inr () \<and> (\<forall>e\<in>set more. step_no (fst e) \<noteq> 3) \<longrightarrow>
              rows st' = rows st @
                [\<lparr>UPC = upc, precio_sin_promocion = py ''-'', precio_con_promocion = py ''-'',
                  nombre_del_producto = py ''No encontrado'',
                  fecha_scrapping = now_str env (world st')\<rparr>])"
proof -
  note r1 = search_or_fallback_calls(1)[OF sf]
  have stop: ?thesis if "st' = st1" "\<exists>e. r = Inl e"
    using that by (intro exI[of _ "[]"]) auto
  have nf: ?thesis
    if "st' = append_row env upc (py ''-'') (py ''-'') (py ''No encontrado'') s" "calls s = calls st1 @ ds"
      "\<forall>e\<in>set ds. step_no (fst e) = 2" "rows s = rows st" for s ds
    using that by (intro exI[of _ ds]) (auto simp: append_row_def)
  show ?thesis
  proof (cases a)
    case (Inl e)
    with t sf show ?thesis by (intro stop) (auto simp: process_upc_try_def)
  next
    case (Inr products)
    show ?thesis
    proof (cases "truthy rt products")
      case False
      with t sf Inr r1 show ?thesis
        by (intro nf[of st1 "[]"]) (auto simp: process_upc_try_def)
    next
      case True
      show ?thesis
      proof (cases "py_iter products")
        case (Inl e)
        with t sf Inr True show ?thesis by (intro stop) (auto simp: process_upc_try_def)
      next
        case pdts: (Inr pdts)
        obtain b st2 where pl: "pick_loop rt env upc pdts st1 = (b, st2)"
          by (cases "pick_loop rt env upc pdts st1")
        from pick_loop_calls[OF pl] obtain ds where
          ds: "calls st2 = calls st1 @ ds" "\<forall>e\<in>set ds. step_no (fst e) = 2"
            "rows st2 = rows st1"
          by blast
        show ?thesis
        proof (cases b)
          case (Inl e)
          with t sf Inr True pdts pl have "st' = st2" "r = Inl e"
            by (auto simp: process_upc_try_def)
          with ds show ?thesis by (intro exI[of _ ds]) auto
        next
          case pd: (Inr pd)
          obtain picked dj where pdeq: "pd = (picked, dj)" by (cases pd)
          show ?thesis
          proof (cases "truthy rt picked")
            case False
            with t sf Inr True pdts pl pd pdeq ds r1 show ?thesis
              by (intro nf[of st2 ds]) (auto simp: process_upc_try_def)
          next
            case tp: True
            from t sf Inr True pdts pl pd pdeq tp have
              pb: "price_block rt env cid upc picked dj st2 = (r, st')"
              by (auto simp: process_upc_try_def)
            from price_block_calls[OF pb] show ?thesis
            proof (elim disjE conjE exE)
              fix e assume "calls st' = calls st2" "r = Inl e"
              with ds show ?thesis by (intro exI[of _ ds]) auto
            next
              fix code evs
              assume c: "calls st' = calls st2 @ evs" "cart_calls_ok rt cid code evs"
              note k = cart_calls_ok_steps(2,5)[OF c(2)]
              have "\<exists>e\<in>set evs. step_no (fst e) = 3"
                using k(2) by (auto simp: count_step_def filter_empty_conv
                    dest!: arg_cong[where f = "\<lambda>n. n = 0"])
              with c(1) ds k(1) show ?thesis
                by (intro exI[of _ "ds @ evs"]) fastforce
            qed
          qed
        qed
      qed
    qed
  qed
qed



lemma count_step_zero: "(count_step n xs = 0) = (\<forall>e\<in>set xs. step_no (fst e) \<noteq> n)"
  by (auto simp: count_step_def filter_empty_conv)

text \<open>
  C6, amended. \<open>r1\<close> is the reply to the search for the identifier and \<open>r2\<close> the reply to
  the search for \<^verbatim>\<open>:relevance:freeText:\<close> followed by the identifier. When the first
  search gives products (or raises), the iteration makes that one search only. When it
  gives none, the iteration makes exactly one more search, the fallback; when the
  fallback gives none either, the iteration makes no other call and records the
  identifier as \<^verbatim>\<open>No encontrado\<close> with \<^verbatim>\<open>-\<close> in both price columns. That row is not
  kept for this case: every iteration that ends without an exception and without a cart
  add, so also one whose searches gave products none of which matched, records the same
  row.
\<close>

theorem search_fallback_policy:
  assumes "evs = item_calls rt env cart_id upc st"
    and "send env (world st) (SearchReq upc) = (r1, w1)"
    and "send env w1 (SearchReq (JStr (py '':relevance:freeText:'' @ py_str rt upc))) = (r2, w2)"
  shows "((\<forall>p. search_result rt r1 = Inr p \<longrightarrow> truthy rt p) \<longrightarrow>
            count_step 1 evs = 1 \<and> hd evs = (SearchReq upc, r1))
    \<and> (search_result rt r1 = Inr p1 \<and> \<not> truthy rt p1 \<longrightarrow>
            count_step 1 evs = 2 \<and>
            take 2 evs = [(SearchReq upc, r1),
                          (SearchReq (JStr (py '':relevance:freeText:'' @ py_str rt upc)), r2)])
    \<and> (search_result rt r1 = Inr p1 \<and> \<not> truthy rt p1 \<and>
        search_result rt r2 = Inr p2 \<and> \<not> truthy rt p2 \<longrightarrow>
            process_upc rt env cart_id upc st =
              st\<lparr>world := w2,
                 calls := calls st @ [(SearchReq upc, r1),
                   (SearchReq (JStr (py '':relevance:freeText:'' @ py_str rt upc)), r2)],
                 rows := rows st @
                   [\<lparr>UPC = upc, precio_sin_promocion = py ''-'', precio_con_promocion = py ''-'',
                     nombre_del_producto = py ''No encontrado'',
                     fecha_scrapping = now_str env w2\<rparr>]\<rparr>)
    \<and> (process_upc_try rt env cart_id upc st = (Inr (), st') \<and> count_step 3 evs = 0 \<longrightarrow>
            rows st' = rows st @
              [\<lparr>UPC = upc, precio_sin_promocion = py ''-'', precio_con_promocion = py ''-'',
                nombre_del_producto = py ''No encontrado'',
                fecha_scrapping = now_str env (world st')\<rparr>])"
proof -
  let ?fb = "JStr (py '':relevance:freeText:'' @ py_str rt upc)"
  let ?e1 = "(SearchReq upc, r1)"
  let ?e2 = "(SearchReq ?fb, r2)"
  let ?sa = "st\<lparr>world := w1, calls := calls st @ [?e1]\<rparr>"
  note s1 = search_exact[OF assms(2), of rt]
  have s2: "search rt env ?fb ?sa =
      (search_result rt r2, ?sa\<lparr>world := w2, calls := calls ?sa @ [?e2]\<rparr>)"
    using assms(3) by (intro search_exact) simp
  obtain r stt where t: "process_upc_try rt env cart_id upc st = (r, stt)"
    by (cases "process_upc_try rt env cart_id upc st")
  have evs: "evs = drop (length (calls st)) (calls stt)"
    using assms(1) process_upc_calls[OF t] by (simp add: item_calls_def)
  have one: "count_step 1 evs = 1 \<and> hd evs = ?e1"
    if "\<forall>p. search_result rt r1 = Inr p \<longrightarrow> truthy rt p"
  proof -
    have sf: "search_or_fallback rt env upc st = (search_result rt r1, ?sa)"
      using that s1 by (auto simp: search_or_fallback_def split: sum.splits)
    from process_upc_try_after_search[OF sf t] obtain more where
      m: "calls stt = calls ?sa @ more" "\<forall>e\<in>set more. 2 \<le> step_no (fst e)" by blast
    have "count_step 1 more = 0" using m(2) by (fastforce simp: count_step_zero)
    with m(1) evs show ?thesis by (simp add: count_step_def)
  qed
  have two: "count_step 1 evs = 2 \<and> take 2 evs = [?e1, ?e2]"
    if "search_result rt r1 = Inr p1" "\<not> truthy rt p1"
  proof -
    have sf: "search_or_fallback rt env upc st =
        (search_result rt r2, ?sa\<lparr>world := w2, calls := calls ?sa @ [?e2]\<rparr>)"
      using that s1 s2 by (simp add: search_or_fallback_def)
    from process_upc_try_after_search[OF sf t] obtain more where
      m: "calls stt = calls st @ [?e1, ?e2] @ more" "\<forall>e\<in>set more. 2 \<le> step_no (fst e)"
      by auto
    have "count_step 1 more = 0" using m(2) by (fastforce simp: count_step_zero)
    with m(1) evs show ?thesis by (simp add: count_step_def)
  qed
  have both: "process_upc rt env cart_id upc st =
              st\<lparr>world := w2, calls := calls st @ [?e1, ?e2],
                 rows := rows st @
                   [\<lparr>UPC = upc, precio_sin_promocion = py ''-'', precio_con_promocion = py ''-'',
                     nombre_del_producto = py ''No encontrado'',
                     fecha_scrapping = now_str env w2\<rparr>]\<rparr>"
    if "search_result rt r1 = Inr p1" "\<not> truthy rt p1"
      "search_result rt r2 = Inr p2" "\<not> truthy rt p2"
    using that s1 s2
    by (simp add: process_upc_def process_upc_try_def search_or_fallback_def append_row_def)
  have nf: "rows st' = rows st @
              [\<lparr>UPC = upc, precio_sin_promocion = py ''-'', precio_con_promocion = py ''-'',
                nombre_del_producto = py ''No encontrado'',
                fecha_scrapping = now_str env (world st')\<rparr>]"
    if "process_upc_try rt env cart_id upc st = (Inr (), st')" "count_step 3 evs = 0"
  proof -
    from that(1) t have eq: "r = Inr ()" "stt = st'" by simp_all
    obtain a sb where sf: "search_or_fallback rt env upc st = (a, sb)"
      by (cases "search_or_fallback rt env upc st")
    from search_or_fallback_ok[OF sf] obtain ss where ss: "calls sb = calls st @ ss" by blast
    from process_upc_try_after_search[OF sf t] obtain more where
      m: "calls stt = calls sb @ more"
        "r = Inr () \<and> (\<forall>e\<in>set more. step_no (fst e) \<noteq> 3) \<longrightarrow>
              rows stt = rows st @
                [\<lparr>UPC = upc, precio_sin_promocion = py ''-'', precio_con_promocion = py ''-'',
                  nombre_del_producto = py ''No encontrado'',
                  fecha_scrapping = now_str env (world stt)\<rparr>]"
      by blast
    have "evs = ss @ more" using evs m(1) ss by simp
    with that(2) have "\<forall>e\<in>set more. step_no (fst e) \<noteq> 3" by (simp add: count_step_zero)
    with m(2) eq show ?thesis by simp
  qed
  from one two both nf show ?thesis by blast
qed

theorem search_fallback_policy_witness:
  "rows (process_upc dec_rt script_env (JStr (py ''g1'')) (JStr (py ''7501''))
          (ex_start [ok_json (JObj []), ok_json (JObj [(py ''products'', JArr [])])]))
     = [\<lparr>UPC = JStr (py ''7501''), precio_sin_promocion = py ''-'', precio_con_promocion = py ''-'',
          nombre_del_producto = py ''No encontrado'',
          fecha_scrapping = py ''2024-01-01 00:00:00''\<rparr>]
   \<and> take 2 (item_calls dec_rt script_env (JStr (py ''g1'')) (JStr (py ''7501''))
          (ex_start [ok_json (JObj []), ok_json (JObj [(py ''products'', JArr [])])]))
     = [(SearchReq (JStr (py ''7501'')), ok_json (JObj [])),
        (SearchReq (JStr (py '':relevance:freeText:7501'')), ok_json (JObj [(py ''products'', JArr [])]))]"
proof -
  have h1: "send script_env
      (world (ex_start [ok_json (JObj []), ok_json (JObj [(py ''products'', JArr [])])]))
      (SearchReq (JStr (py ''7501'')))
     = (ok_json (JObj []), [ok_json (JObj [(py ''products'', JArr [])])])"
    by code_simp
  have h2: "send (script_env :: (dec reply list, dec) env) [ok_json (JObj [(py ''products'', JArr [])])]
      (SearchReq (JStr (py '':relevance:freeText:'' @ py_str dec_rt (JStr (py ''7501'')))))
     = (ok_json (JObj [(py ''products'', JArr [])]), [])"
    by code_simp
  have h3: "search_result dec_rt (ok_json (JObj [])) = Inr (JArr []) \<and> \<not> truthy dec_rt (JArr [])"
    by code_simp
  have h4: "search_result dec_rt (ok_json (JObj [(py ''products'', JArr [])])) = Inr (JArr [])"
    by code_simp
  have h5: "py_str dec_rt (JStr (py ''7501'')) = (py ''7501'')"
    by code_simp
  from search_fallback_policy[where rt = dec_rt and cart_id = "JStr (py ''g1'')" and ?p1.0 = "JArr []"
      and ?p2.0 = "JArr []", OF refl h1 h2] h3 h4 h5
  show ?thesis
    by (simp add: ex_start_def script_env_def py_def)
qed

text \<open>
  The row \<^verbatim>\<open>No encontrado\<close> does not need an empty fallback search: here the first
  search returns a product, no fallback search is made, the detail of the product does
  not match the identifier, and the identifier is recorded as \<^verbatim>\<open>No encontrado\<close>.
\<close>

theorem not_found_after_products_counterexample:
  "search_result dec_rt ex_search = Inr (JArr [ex_product])
   \<and> truthy dec_rt (JArr [ex_product])
   \<and> map fst (item_calls dec_rt script_env (JStr (py ''g1'')) (JStr (py ''7501''))
        (ex_start [ex_search, ok_json ex_other_detail]))
     = [SearchReq (JStr (py ''7501'')), DetailReq (JStr (py ''P1''))]
   \<and> rows (process_upc dec_rt script_env (JStr (py ''g1'')) (JStr (py ''7501''))
        (ex_start [ex_search, ok_json ex_other_detail]))
     = [\<lparr>UPC = JStr (py ''7501''), precio_sin_promocion = py ''-'', precio_con_promocion = py ''-'',
          nombre_del_producto = py ''No encontrado'',
          fecha_scrapping = py ''2024-01-01 00:00:00''\<rparr>]"
  by code_simp






section \<open>The cart cleanup\<close>

text \<open>
  C4. The cart entry of an identifier is not always removed before the next identifier
  is processed. In this run the product of the first identifier is added to the cart,
  the price read raises (a timeout of the request), the handler of \<^verbatim>\<open>main\<close> records
  the error, and the next call is the search for the second identifier: no removal is
  requested, although the path on which the price read returns nothing does request it.
\<close>

theorem cart_entry_left_after_exception:
  "calls (snd (main dec_rt script_env [JStr (py ''7501''), JStr (py ''999'')]
       [ok_json (JObj [(py ''guid'', JStr (py ''g1''))]), ex_search, ok_json ex_detail,
        Response True None, Raises (py ''Timeout 15000ms exceeded''),
        ok_json (JObj []), ok_json (JObj [])]))
   = [(CartCreateReq, ok_json (JObj [(py ''guid'', JStr (py ''g1''))])),
      (SearchReq (JStr (py ''7501'')), ex_search),
      (DetailReq (JStr (py ''P1'')), ok_json ex_detail),
      (AddEntryReq (JStr (py ''g1'')) (JStr (py ''P1'')), Response True None),
      (GetPricesReq (JStr (py ''g1'')), Raises (py ''Timeout 15000ms exceeded'')),
      (SearchReq (JStr (py ''999'')), ok_json (JObj [])),
      (SearchReq (JStr (py '':relevance:freeText:999'')), ok_json (JObj []))]"
  by code_simp

end

